theory Spec2Isabelle
  imports Complex_Main "HOL-Library.Sublist"
begin

section \<open>Python values and exceptions shared by the three scripts\<close>

text \<open>
  The three files under \<^verbatim>\<open>examples/multi_gpu\<close> are driver scripts.  The embedding
  follows their Python control flow: every exception the interpreter itself raises in
  the scripts' own code (an unbound name, a wrong number of arguments, a division of
  Python numbers by zero, an index out of range, a failed \<^verbatim>\<open>assert\<close>) is a branch of
  the model.  Calls into torch, torch\_geometric, torchmetrics and ogb are library
  calls: the values they return are parameters of the model, and they are taken to
  return normally unless the model says otherwise.
\<close>

datatype exn =
    NameError
  | UnboundLocalError
  | TypeError
  | ZeroDivisionError
  | IndexError
  | AssertionError
  | RuntimeError
  | OSError
  | ProcessRaisedException
  | ProcessExitedException
  | KeyboardInterrupt

text \<open>\<^verbatim>\<open>except Exception\<close> catches every class above but \<^verbatim>\<open>KeyboardInterrupt\<close>,
  which derives from \<^verbatim>\<open>BaseException\<close> only.\<close>

fun is_Exception :: "exn \<Rightarrow> bool" where
  "is_Exception KeyboardInterrupt = False"
| "is_Exception _ = True"

definition bind_exn :: "exn + 'a \<Rightarrow> ('a \<Rightarrow> exn + 'b) \<Rightarrow> exn + 'b" where
  "bind_exn m f = (case m of Inl e \<Rightarrow> Inl e | Inr x \<Rightarrow> f x)"

definition py_floordiv :: "int \<Rightarrow> int \<Rightarrow> exn + int" where
  \<comment> \<open>Python's \<^verbatim>\<open>a // b\<close> on ints: floor division, \<^verbatim>\<open>ZeroDivisionError\<close> for \<^verbatim>\<open>b == 0\<close>.\<close>
  "py_floordiv a b = (if b \<noteq> 0 then Inr (a div b) else Inl ZeroDivisionError)"

definition py_index :: "'a list \<Rightarrow> int \<Rightarrow> exn + 'a" where
  \<comment> \<open>\<^verbatim>\<open>t[i]\<close> on a tuple; \<^verbatim>\<open>t[-1]\<close> is the last element.\<close>
  "py_index t i =
     (if 0 \<le> i \<and> i < int (length t) then Inr (t ! nat i)
      else if i < 0 \<and> - int (length t) \<le> i then Inr (t ! nat (int (length t) + i))
      else Inl IndexError)"

section \<open>Splitting the training indices over the ranks\<close>

text \<open>
  \<^verbatim>\<open>Tensor.split(split_size)\<close> on a one-dimensional tensor cuts it into consecutive
  chunks of \<^verbatim>\<open>split_size\<close> elements, the last one shorter when the size is not a
  multiple; a tensor no longer than \<^verbatim>\<open>split_size\<close> gives a single chunk.  A negative
  size, or size zero on a non-empty tensor, is rejected with \<^verbatim>\<open>RuntimeError\<close>.
\<close>

function chunks :: "nat \<Rightarrow> 'a list \<Rightarrow> 'a list list" where
  "chunks k xs =
     (if k = 0 \<or> length xs \<le> k then [xs] else take k xs # chunks k (drop k xs))"
  by pat_completeness auto
termination
  by (relation "measure (\<lambda>(k, xs). length xs)") auto

declare chunks.simps [simp del]

definition tensor_split :: "int \<Rightarrow> 'a list \<Rightarrow> exn + 'a list list" where
  "tensor_split k xs =
     (if k < 0 \<or> (k = 0 \<and> xs \<noteq> []) then Inl RuntimeError else Inr (chunks (nat k) xs))"

definition rank_chunk :: "int \<Rightarrow> int \<Rightarrow> 'a list \<Rightarrow> exn + 'a list" where
  \<comment> \<open>\<^verbatim>\<open>idx.split(idx.size(0) // world_size)[rank]\<close>, as all three scripts write it.\<close>
  "rank_chunk world_size rank idx =
     bind_exn (py_floordiv (int (length idx)) world_size) (\<lambda>k.
     bind_exn (tensor_split k idx) (\<lambda>cs.
     py_index cs rank))"

definition slice :: "nat \<Rightarrow> nat \<Rightarrow> 'a list \<Rightarrow> 'a list" where
  \<comment> \<open>positions \<open>r * k\<close> up to \<open>(r + 1) * k\<close> of \<open>xs\<close>\<close>
  "slice k r xs = take k (drop (r * k) xs)"

section \<open>Traces: what a process prints and which library calls it makes\<close>

text \<open>
  A float or the value of a zero-dimensional tensor is an exact rational here, or one of
  the non-finite values.  \<open>acc_val\<close> distinguishes a Python number (the initial
  \<^verbatim>\<open>acc_sum = 0\<close>) from a tensor (after \<^verbatim>\<open>acc_sum += acc(...)\<close>): dividing a Python
  number by zero raises, dividing a tensor by zero gives \<^verbatim>\<open>inf\<close> or \<^verbatim>\<open>nan\<close>.
\<close>

datatype pyfloat = Fin rat | PosInf | NegInf | NaN

datatype acc_val = PyNum rat | Tens rat

fun value_of :: "acc_val \<Rightarrow> rat" where
  "value_of (PyNum v) = v"
| "value_of (Tens v) = v"

definition add_metric :: "acc_val \<Rightarrow> rat \<Rightarrow> acc_val" where
  \<comment> \<open>\<^verbatim>\<open>acc_sum += acc(...)\<close>: the metric is a tensor, so the sum is one afterwards\<close>
  "add_metric s a = Tens (value_of s + a)"

fun all_reduce_mean :: "acc_val \<Rightarrow> rat list \<Rightarrow> acc_val" where
  \<comment> \<open>\<^verbatim>\<open>all_reduce(acc_sum, op=ReduceOp.MEAN)\<close> overwrites the tensor with the mean over
      all ranks (this rank's value and its peers'); a Python number cannot be updated
      in place and is left as it is\<close>
  "all_reduce_mean (Tens v) ps = Tens ((v + sum_list ps) / of_nat (Suc (length ps)))"
| "all_reduce_mean (PyNum v) ps = PyNum v"

fun div_by_int :: "acc_val \<Rightarrow> int \<Rightarrow> exn + pyfloat" where
  "div_by_int (PyNum v) d =
     (if d = 0 then Inl ZeroDivisionError else Inr (Fin (v / of_int d)))"
| "div_by_int (Tens v) d =
     (if d = 0 then Inr (if 0 < v then PosInf else if v < 0 then NegInf else NaN)
      else Inr (Fin (v / of_int d)))"

fun times100 :: "pyfloat \<Rightarrow> pyfloat" where
  "times100 (Fin x) = Fin (x * 100)"
| "times100 PosInf = PosInf"
| "times100 NegInf = NegInf"
| "times100 NaN = NaN"

fun float_ge :: "pyfloat \<Rightarrow> rat \<Rightarrow> bool" where
  "float_ge (Fin x) c = (c \<le> x)"
| "float_ge PosInf c = True"
| "float_ge NegInf c = False"
| "float_ge NaN c = False"

datatype event =
    Print string
  | PrintValue string pyfloat
  | InitProcessGroup
  | DestroyProcessGroup
  | Barrier
  | AllReduce
  | MakeAdam rat rat
  | ToDevice
  | ZeroGrad
  | Forward
  | CrossEntropy int
  | Metric
  | Backward
  | OptStep
  | Save string

type_synonym 'a io = "event list \<times> (exn + 'a)"

definition ok :: "'a \<Rightarrow> 'a io" where
  "ok x = ([], Inr x)"

definition throw :: "exn \<Rightarrow> 'a io" where
  "throw e = ([], Inl e)"

definition emit :: "event \<Rightarrow> unit io" where
  "emit ev = ([ev], Inr ())"

definition lift :: "exn + 'a \<Rightarrow> 'a io" where
  "lift r = ([], r)"

definition prepend :: "event list \<Rightarrow> 'a io \<Rightarrow> 'a io" where
  "prepend tr m = (tr @ fst m, snd m)"

definition bind_io :: "'a io \<Rightarrow> ('a \<Rightarrow> 'b io) \<Rightarrow> 'b io" where
  "bind_io m f = (case snd m of Inl e \<Rightarrow> (fst m, Inl e) | Inr x \<Rightarrow> prepend (fst m) (f x))"

definition then_io :: "unit io \<Rightarrow> 'a io \<Rightarrow> 'a io" where
  "then_io m n = bind_io m (\<lambda>_. n)"

definition when_io :: "bool \<Rightarrow> unit io \<Rightarrow> unit io" where
  "when_io c m = (if c then m else ok ())"

fun seq_io :: "unit io list \<Rightarrow> unit io" where
  "seq_io [] = ok ()"
| "seq_io (m # ms) = then_io m (seq_io ms)"

text \<open>The executed iterations of a loop, each with its index and its own trace.\<close>

type_synonym 'a iters = "(int \<times> event list) list \<times> (exn + 'a)"

definition flat :: "'a iters \<Rightarrow> 'a io" where
  "flat l = (concat (map snd (fst l)), snd l)"

definition first_iter :: "int \<Rightarrow> event list \<Rightarrow> 'a iters \<Rightarrow> 'a iters" where
  "first_iter i tr l = ((i, tr) # fst l, snd l)"

text \<open>
  What the library gives back: the batches a loader yields for its input nodes, the
  number of seed nodes of a batch, the value of the accuracy metric on a batch in a
  given phase of the run, and the accuracy sums the other ranks contribute to an
  all-reduce.  Every epoch sees the same list of batches (shuffling reorders them).
\<close>

datatype loader_cls = NeighborLoader | CuGraphNeighborLoader

datatype phase = Training int | Validation int | Testing

record 'b world =
  batches :: "loader_cls \<Rightarrow> bool \<Rightarrow> nat list \<Rightarrow> 'b list"
  seed_count :: "'b \<Rightarrow> int"
  metric :: "phase \<Rightarrow> 'b \<Rightarrow> rat"
  peers :: "phase \<Rightarrow> rat list"

text \<open>Local variables of a training function that are read after the loop that binds them.\<close>

record run_locals =
  loc_i :: "int option"
  loc_loss :: bool
  loc_start :: bool
  loc_sum_acc :: acc_val
  loc_acc_sum :: acc_val

definition fresh_locals :: run_locals where
  "fresh_locals =
     \<lparr>loc_i = None, loc_loss = False, loc_start = False,
      loc_sum_acc = PyNum 0, loc_acc_sum = PyNum 0\<rparr>"

definition read_i :: "run_locals \<Rightarrow> int io" where
  "read_i loc = (case loc_i loc of None \<Rightarrow> throw UnboundLocalError | Some i \<Rightarrow> ok i)"

definition load_name :: "string list \<Rightarrow> string \<Rightarrow> unit io" where
  \<comment> \<open>reading a global name: \<^verbatim>\<open>NameError\<close> unless the module (or builtins) binds it\<close>
  "load_name ns x = (if x \<in> set ns then ok () else throw NameError)"

definition py_builtins :: "string list" where
  "py_builtins = [''super'', ''len'', ''sum'', ''print'', ''range'', ''dict'', ''int'',
     ''enumerate'', ''hasattr'', ''str'', ''round'', ''Exception'']"

definition py_mod :: "int \<Rightarrow> int \<Rightarrow> exn + int" where
  \<comment> \<open>Python's \<^verbatim>\<open>a % b\<close> on ints (the sign follows the divisor, as HOL's \<open>mod\<close> does)\<close>
  "py_mod a b = (if b \<noteq> 0 then Inr (a mod b) else Inl ZeroDivisionError)"

definition nonzero_divisor :: "int \<Rightarrow> unit io" where
  \<comment> \<open>a Python number divided by \<open>d\<close>: only whether it raises matters to the run\<close>
  "nonzero_divisor d = (if d = 0 then throw ZeroDivisionError else ok ())"

section \<open>mag240m\_graphsage.py\<close>

text \<open>
  The names the module binds: its imports (lines 1--22) and its \<^verbatim>\<open>def\<close>s and classes;
  when it runs as \<^verbatim>\<open>__main__\<close>, also the variables of the main block (a process
  started by \<^verbatim>\<open>mp.spawn\<close> imports the module under another name and skips that
  block).  \<^verbatim>\<open>from torch.nn import Embedding, Linear\<close> binds no name \<^verbatim>\<open>nn\<close>.
\<close>

definition mag240m_globals :: "bool \<Rightarrow> bool \<Rightarrow> string list" where
  "mag240m_globals as_main debug_flag =
     py_builtins @
     [''argparse'', ''os'', ''time'', ''Dict'', ''List'', ''Tuple'', ''torch'', ''dist'',
      ''mp'', ''F'', ''MAG240MDataset'', ''MAG240MEvaluator'', ''Tensor'', ''Embedding'',
      ''Linear'', ''DistributedDataParallel'', ''Accuracy'', ''tqdm'', ''seed_everything'',
      ''Batch'', ''NeighborLoader'', ''HeteroConv'', ''SAGEConv'', ''BatchNorm'', ''Adj'',
      ''EdgeType'', ''NodeType'', ''common_step'', ''training_step'', ''validation_step'',
      ''predict_step'', ''SAGEConvLayer'', ''GraphSAGE'', ''run''] @
     (if as_main
      then [''help_str'', ''parser'', ''args''] @
           (if debug_flag then [] else [''warnings'']) @ [''dataset'', ''data'']
      else [])"

text \<open>The heterogeneous graph: \<^verbatim>\<open>data.metadata()\<close> is the pair of its node types and
  edge types; the three index lists are the non-zero positions of the paper masks.\<close>

record hetero_data =
  node_types :: "string list"
  edge_types :: "(string \<times> string \<times> string) list"
  train_idx :: "nat list"
  val_idx :: "nat list"
  test_idx :: "nat list"

record run_args =
  rank :: int
  n_devices :: int
  num_epochs :: int
  num_steps_per_epoch :: int
  log_every_n_steps :: int
  batch_size :: int
  sizes :: "int list"
  hidden_channels :: int
  dropout :: rat
  eval_steps :: int
  num_warmup_iters_for_timing :: int
  debug :: bool

definition SAGEConvLayer_init :: "string list \<Rightarrow> hetero_data \<Rightarrow> unit io" where
  \<comment> \<open>lines 57--68: the dict comprehension evaluates \<^verbatim>\<open>conv_type\<close>, then its arguments,
      once per edge type; \<^verbatim>\<open>nn.Dropout\<close> and \<^verbatim>\<open>nn.ModuleDict\<close> follow\<close>
  "SAGEConvLayer_init ns data =
     seq_io
       [load_name ns ''super'',
        load_name ns ''HeteroConv'',
        seq_io (map (\<lambda>e_type. seq_io [load_name ns ''conv_type'', load_name ns ''kwargs''])
                    (edge_types data)),
        load_name ns ''nn'',
        load_name ns ''torch'',
        load_name ns ''nn'',
        seq_io (map (\<lambda>node. load_name ns ''BatchNorm'') (node_types data))]"

definition GraphSAGE_init :: "string list \<Rightarrow> int \<Rightarrow> hetero_data \<Rightarrow> unit io" where
  \<comment> \<open>lines 88--104\<close>
  "GraphSAGE_init ns num_layers data =
     seq_io
       [load_name ns ''super'',
        load_name ns ''torch'',
        load_name ns ''torch'',
        load_name ns ''SAGEConvLayer'',
        SAGEConvLayer_init ns data,
        when_io (2 < num_layers)
          (seq_io (load_name ns ''range'' #
                   replicate (nat (num_layers - 2))
                     (then_io (load_name ns ''SAGEConvLayer'') (SAGEConvLayer_init ns data)))),
        load_name ns ''SAGEConvLayer'',
        SAGEConvLayer_init ns data]"

definition GraphSAGE_forward :: "string list \<Rightarrow> int \<Rightarrow> unit io" where
  \<comment> \<open>lines 107--117: with more than two layers the loop reads the global
      \<^verbatim>\<open>num_layers\<close>, not \<^verbatim>\<open>self.num_layers\<close>\<close>
  "GraphSAGE_forward ns num_layers =
     seq_io
       [when_io (2 < num_layers) (seq_io [load_name ns ''range'', load_name ns ''num_layers'']),
        emit Forward]"

definition common_step :: "string list \<Rightarrow> int \<Rightarrow> unit io" where
  "common_step ns num_layers = GraphSAGE_forward ns num_layers"

definition training_step :: "string list \<Rightarrow> int \<Rightarrow> 'b world \<Rightarrow> 'b \<Rightarrow> unit io" where
  \<comment> \<open>lines 33--36: the loss is taken on \<^verbatim>\<open>y_hat\<close> and \<^verbatim>\<open>y\<close>, both cut to the batch's
      own \<^verbatim>\<open>batch_size\<close> by \<^verbatim>\<open>common_step\<close>\<close>
  "training_step ns num_layers w b =
     seq_io [common_step ns num_layers, emit (CrossEntropy (seed_count w b)), emit Metric]"

definition validation_step :: "string list \<Rightarrow> int \<Rightarrow> unit io" where
  "validation_step ns num_layers = seq_io [common_step ns num_layers, emit Metric]"

definition num_layers_of :: "run_args \<Rightarrow> int" where
  \<comment> \<open>\<^verbatim>\<open>num_layers=len(sizes)\<close>\<close>
  "num_layers_of a = int (length (sizes a))"

definition run_setup :: "string list \<Rightarrow> run_args \<Rightarrow> hetero_data \<Rightarrow> unit io" where
  \<comment> \<open>lines 135--152\<close>
  "run_setup ns a data =
     seq_io
       [when_io (1 < n_devices a)
          (seq_io [when_io (rank a = 0) (emit (Print ''Setting up distributed...'')),
                   emit InitProcessGroup]),
        when_io (rank a = 0) (emit (Print ''Setting up GNN...'')),
        GraphSAGE_init ns (num_layers_of a) data]"

definition run_indices :: "run_args \<Rightarrow> hetero_data \<Rightarrow> exn + nat list \<times> nat list \<times> nat list" where
  \<comment> \<open>lines 162--169\<close>
  "run_indices a data =
     (if 1 < n_devices a
      then bind_exn (rank_chunk (n_devices a) (rank a) (train_idx data)) (\<lambda>tr.
           bind_exn (rank_chunk (n_devices a) (rank a) (val_idx data)) (\<lambda>ev.
           bind_exn (rank_chunk (n_devices a) (rank a) (test_idx data)) (\<lambda>te.
           Inr (tr, ev, te))))
      else Inr (train_idx data, val_idx data, test_idx data))"

definition train_iteration ::
  "string list \<Rightarrow> run_args \<Rightarrow> 'b world \<Rightarrow> int \<Rightarrow> int \<Rightarrow> 'b \<Rightarrow> run_locals \<Rightarrow> run_locals io" where
  \<comment> \<open>lines 213--227, for the batch of index \<open>i\<close>\<close>
  "train_iteration ns a w epoch i b loc =
     then_io
       (seq_io
          [emit ZeroGrad,
           when_io (0 < n_devices a) (emit ToDevice),
           training_step ns (num_layers_of a) w b,
           emit Backward,
           emit OptStep,
           when_io (rank a = 0)
             (bind_io (lift (py_mod i (log_every_n_steps a))) (\<lambda>m.
              when_io (m = 0) (emit (Print ''Epoch, Step, Loss, Train Acc, Step Time''))))])
       (ok (loc\<lparr>loc_loss := True,
                 loc_sum_acc := add_metric (loc_sum_acc loc) (metric w (Training epoch) b)\<rparr>))"

fun train_loop ::
  "string list \<Rightarrow> run_args \<Rightarrow> 'b world \<Rightarrow> int \<Rightarrow> int \<Rightarrow> 'b list \<Rightarrow> run_locals
   \<Rightarrow> run_locals iters" where
  "train_loop ns a w epoch i [] loc = ([], Inr loc)"
| "train_loop ns a w epoch i (b # bs) loc =
     (if 0 \<le> num_steps_per_epoch a \<and> num_steps_per_epoch a \<le> i
      then ([], Inr (loc\<lparr>loc_i := Some i\<rparr>))
      else (case train_iteration ns a w epoch i b (loc\<lparr>loc_i := Some i\<rparr>) of
              (tr, Inl e) \<Rightarrow> ([(i, tr)], Inl e)
            | (tr, Inr loc') \<Rightarrow> first_iter i tr (train_loop ns a w epoch (i + 1) bs loc')))"

definition epoch_report :: "run_args \<Rightarrow> run_locals \<Rightarrow> unit io" where
  \<comment> \<open>lines 228--233: the f-string reads \<^verbatim>\<open>loss\<close>, then \<^verbatim>\<open>sum_acc / i\<close>, then
      \<^verbatim>\<open>time_sum/(i - num_warmup_iters_for_timing)\<close>\<close>
  "epoch_report a loc =
     seq_io
       [when_io (1 < n_devices a) (emit Barrier),
        when_io (\<not> loc_loss loc) (throw UnboundLocalError),
        bind_io (read_i loc) (\<lambda>i.
        bind_io (lift (div_by_int (loc_sum_acc loc) i)) (\<lambda>train_acc.
        nonzero_divisor (i - num_warmup_iters_for_timing a))),
        emit (Print ''Epoch, Loss, Train Acc, Average Step Time'')]"

fun eval_loop ::
  "string list \<Rightarrow> run_args \<Rightarrow> 'b world \<Rightarrow> phase \<Rightarrow> int \<Rightarrow> 'b list \<Rightarrow> run_locals
   \<Rightarrow> run_locals io" where
  "eval_loop ns a w ph i [] loc = ok loc"
| "eval_loop ns a w ph i (b # bs) loc =
     (if eval_steps a \<le> i then ok (loc\<lparr>loc_i := Some i\<rparr>)
      else (case seq_io [when_io (0 < n_devices a) (emit ToDevice),
                         validation_step ns (num_layers_of a)] of
              (tr, Inl e) \<Rightarrow> (tr, Inl e)
            | (tr, Inr u) \<Rightarrow>
                prepend tr
                  (eval_loop ns a w ph (i + 1) bs
                     (loc\<lparr>loc_i := Some i,
                          loc_acc_sum := add_metric (loc_acc_sum loc) (metric w ph b)\<rparr>))))"

definition evaluate ::
  "string list \<Rightarrow> run_args \<Rightarrow> 'b world \<Rightarrow> phase \<Rightarrow> 'b list \<Rightarrow> run_locals
   \<Rightarrow> (pyfloat \<times> run_locals) io" where
  \<comment> \<open>lines 235--245 and 249--259: \<^verbatim>\<open>acc_sum / (i + 1) * 100.0\<close> after the all-reduce\<close>
  "evaluate ns a w ph loader loc =
     bind_io (eval_loop ns a w ph 0 loader (loc\<lparr>loc_acc_sum := PyNum 0\<rparr>)) (\<lambda>loc1.
     then_io (emit AllReduce) (
     bind_io (read_i loc1) (\<lambda>i.
     bind_io (lift (div_by_int (all_reduce_mean (loc_acc_sum loc1) (peers w ph)) (i + 1))) (\<lambda>q.
     ok (times100 q, loc1)))))"

definition run_epoch ::
  "string list \<Rightarrow> run_args \<Rightarrow> 'b world \<Rightarrow> 'b list \<Rightarrow> 'b list \<Rightarrow> int \<Rightarrow> run_locals
   \<Rightarrow> run_locals io" where
  \<comment> \<open>lines 208--245\<close>
  "run_epoch ns a w train_loader eval_loader epoch loc =
     bind_io (flat (train_loop ns a w epoch 0 train_loader (loc\<lparr>loc_sum_acc := PyNum 0\<rparr>))) (\<lambda>loc1.
     then_io (epoch_report a loc1) (
     bind_io (evaluate ns a w (Validation epoch) eval_loader loc1) (\<lambda>(v, loc2).
     then_io (emit (PrintValue ''Validation Accuracy'' v)) (ok loc2))))"

fun run_epochs ::
  "string list \<Rightarrow> run_args \<Rightarrow> 'b world \<Rightarrow> 'b list \<Rightarrow> 'b list \<Rightarrow> int list \<Rightarrow> run_locals
   \<Rightarrow> run_locals io" where
  "run_epochs ns a w train_loader eval_loader [] loc = ok loc"
| "run_epochs ns a w train_loader eval_loader (epoch # es) loc =
     (case run_epoch ns a w train_loader eval_loader epoch loc of
        (tr, Inl e) \<Rightarrow> (tr, Inl e)
      | (tr, Inr loc') \<Rightarrow> prepend tr (run_epochs ns a w train_loader eval_loader es loc'))"

definition run_test ::
  "string list \<Rightarrow> run_args \<Rightarrow> 'b world \<Rightarrow> 'b list \<Rightarrow> run_locals \<Rightarrow> pyfloat io" where
  \<comment> \<open>lines 246--260; the result is \<^verbatim>\<open>final_test_acc\<close>\<close>
  "run_test ns a w test_loader loc =
     then_io (when_io (1 < n_devices a) (emit Barrier)) (
     bind_io (evaluate ns a w Testing test_loader loc) (\<lambda>(final_test_acc, loc1).
     then_io (emit (PrintValue ''Test Accuracy'' final_test_acc)) (ok final_test_acc)))"

definition run_finish :: "run_args \<Rightarrow> pyfloat \<Rightarrow> unit io" where
  \<comment> \<open>lines 261--264\<close>
  "run_finish a final_test_acc =
     seq_io
       [when_io (1 < n_devices a) (emit DestroyProcessGroup),
        emit (Save ''trained_graphsage_for_mag240m.pt''),
        when_io (\<not> float_ge final_test_acc 68) (throw AssertionError)]"

definition run_tail ::
  "string list \<Rightarrow> run_args \<Rightarrow> 'b world \<Rightarrow> 'b list \<Rightarrow> run_locals \<Rightarrow> unit io" where
  \<comment> \<open>lines 246--264: the test evaluation and what follows it\<close>
  "run_tail ns a w test_loader loc = bind_io (run_test ns a w test_loader loc) (run_finish a)"

definition run :: "string list \<Rightarrow> run_args \<Rightarrow> hetero_data \<Rightarrow> 'b world \<Rightarrow> unit io" where
  \<comment> \<open>lines 120--264; the loaders of lines 171--196 are the library's\<close>
  "run ns a data w =
     then_io (run_setup ns a data) (
     then_io (when_io (rank a = 0)
                (seq_io [emit (Print ''# GNN Params''),
                         emit (Print ''Setting up NeighborLoaders...'')])) (
     bind_io (lift (run_indices a data)) (\<lambda>(tr, ev, te).
     then_io (seq_io [when_io (rank a = 0) (emit (Print ''Final setup...'')),
                      when_io (0 < n_devices a) (emit ToDevice),
                      when_io (rank a = 0) (emit (Print ''about to make optimizer'')),
                      emit (MakeAdam (1 / 1000) 0)]) (
     bind_io (run_epochs ns a w (batches w NeighborLoader True tr)
                (batches w NeighborLoader False ev) [1..num_epochs a] fresh_locals) (\<lambda>loc.
     run_tail ns a w (batches w NeighborLoader False te) loc)))))"

definition main_mag240m ::
  "run_args \<Rightarrow> rat \<Rightarrow> bool \<Rightarrow> int \<Rightarrow> exn + unit \<Rightarrow> hetero_data \<Rightarrow> 'b world \<Rightarrow> unit io" where
  \<comment> \<open>lines 267--369.  \<open>args\<close> are the parsed flags (\<^verbatim>\<open>--epochs\<close> is \<open>num_epochs\<close>, the
      rank is set by the call), \<open>spawn_outcome\<close> is what \<^verbatim>\<open>mp.spawn\<close> does in the parent:
      return, or raise\<close>
  "main_mag240m args subgraph cuda_available device_count spawn_outcome data w =
     (let n0 = (if cuda_available then n_devices args else 0);
          n = (if device_count < n0 then device_count else n0)
      in seq_io
           [emit (Print ''args''),
            when_io (\<not> cuda_available) (emit (Print ''No GPUs available, running with CPU'')),
            when_io (device_count < n0) (emit (Print ''GPUs requested but only some available'')),
            emit (Print ''Loading Data...''),
            emit (Print ''Data =''),
            when_io (subgraph < 1) (emit (Print ''Making a subgraph of the data'')),
            if 1 < n
            then seq_io
                   [emit (Print ''Lets use GPUs!''),
                    case spawn_outcome of
                      Inr u \<Rightarrow> ok ()
                    | Inl e \<Rightarrow>
                        if e = ProcessExitedException
                        then seq_io
                               [emit (Print ''torch.multiprocessing.spawn.ProcessExitedException:''),
                                emit (Print ''Exceptions/SIGBUS/Errors may be caused by a lack of RAM'')]
                        else throw e]
            else seq_io
                   [emit (Print (if n = 1 then ''Using a single GPU'' else ''Using CPU'')),
                    run (mag240m_globals True (debug args)) (args\<lparr>rank := 0, n_devices := n\<rparr>)
                      data w]])"

section \<open>The two ogbn-papers100M scripts\<close>

subsection \<open>\<^verbatim>\<open>get_num_workers\<close>\<close>

text \<open>
  What the function sees of the operating system: whether \<^verbatim>\<open>os\<close> has
  \<^verbatim>\<open>sched_getaffinity\<close>, what \<^verbatim>\<open>len(os.sched_getaffinity(0))\<close> gives (the number of
  CPUs of the affinity set, or the exception the call raises), and \<^verbatim>\<open>os.cpu_count()\<close>,
  which is \<^verbatim>\<open>None\<close> when the count cannot be determined.
\<close>

record os_env =
  has_sched_getaffinity :: bool
  affinity_count :: "exn + nat"
  cpu_count :: "nat option"

definition try_affinity :: "os_env \<Rightarrow> int \<Rightarrow> exn + int option" where
  \<comment> \<open>the \<^verbatim>\<open>if hasattr ...: try: ... except Exception: pass\<close> block; \<open>None\<close> when
      \<^verbatim>\<open>num_workers\<close> is still \<^verbatim>\<open>None\<close> after it\<close>
  "try_affinity env factor =
     (if has_sched_getaffinity env
      then (case bind_exn (affinity_count env) (\<lambda>n. py_floordiv (int n) factor) of
              Inr k \<Rightarrow> Inr (Some k)
            | Inl e \<Rightarrow> if is_Exception e then Inr None else Inl e)
      else Inr None)"

definition cpu_count_fallback :: "os_env \<Rightarrow> int \<Rightarrow> exn + int" where
  \<comment> \<open>\<^verbatim>\<open>os.cpu_count() // factor\<close>; \<^verbatim>\<open>None // factor\<close> is a \<^verbatim>\<open>TypeError\<close>\<close>
  "cpu_count_fallback env factor =
     (case cpu_count env of None \<Rightarrow> Inl TypeError | Some c \<Rightarrow> py_floordiv (int c) factor)"

definition get_num_workers_multinode :: "os_env \<Rightarrow> exn + int" where
  \<comment> \<open>papers100m\_gcn\_multinode.py, lines 23--32\<close>
  "get_num_workers_multinode env =
     bind_exn (try_affinity env 2) (\<lambda>num_workers.
       case num_workers of None \<Rightarrow> cpu_count_fallback env 2 | Some k \<Rightarrow> Inr k)"

definition get_num_workers_singlenode :: "int \<Rightarrow> os_env \<Rightarrow> exn + int" where
  \<comment> \<open>singlenode\_multigpu\_papers100m\_gcn.py, lines 16--25\<close>
  "get_num_workers_singlenode world_size env =
     bind_exn (try_affinity env (2 * world_size)) (\<lambda>num_workers.
       case num_workers of
         None \<Rightarrow> cpu_count_fallback env (2 * world_size)
       | Some k \<Rightarrow> Inr k)"

subsection \<open>\<^verbatim>\<open>run_train\<close>\<close>

text \<open>The parameters of \<^verbatim>\<open>run_train\<close> that steer it (\<^verbatim>\<open>data\<close>, \<^verbatim>\<open>model\<close> and
  \<^verbatim>\<open>num_classes\<close> only travel on to the library), \<^verbatim>\<open>split_idx\<close> as its three index
  lists.  In the multi-node script the rank is \<^verbatim>\<open>torch.distributed.get_rank()\<close>.\<close>

record train_args =
  p_rank :: int
  p_world_size :: int
  p_epochs :: int
  p_batch_size :: int
  p_fan_out :: int
  p_cugraph_data_loader :: bool
  p_split_train :: "nat list"
  p_split_valid :: "nat list"
  p_split_test :: "nat list"

definition warmup_steps :: int where
  "warmup_steps = 20"

definition papers_eval_steps :: int where
  "papers_eval_steps = 1000"

definition make_optimizer :: "unit io" where
  \<comment> \<open>\<^verbatim>\<open>torch.optim.Adam(model.parameters(), lr=0.01, weight_decay=0.0005)\<close>, the same
      line in both scripts\<close>
  "make_optimizer = emit (MakeAdam (1 / 100) (5 / 10000))"

definition papers_step :: "train_args \<Rightarrow> int \<Rightarrow> unit io" where
  \<comment> \<open>single-node lines 84--93, multi-node lines 96--105\<close>
  "papers_step p i =
     seq_io
       [emit ToDevice,
        emit ZeroGrad,
        emit Forward,
        emit (CrossEntropy (p_batch_size p)),
        emit Backward,
        emit OptStep,
        when_io (p_rank p = 0 \<and> i mod 10 = 0) (emit (Print ''Epoch, Iteration, Loss''))]"

definition mark_start :: "int \<Rightarrow> run_locals \<Rightarrow> run_locals" where
  \<comment> \<open>the loop header binds \<^verbatim>\<open>i\<close>; then \<^verbatim>\<open>if i == warmup_steps: start = time.time()\<close>\<close>
  "mark_start i loc = loc\<lparr>loc_i := Some i, loc_start := (loc_start loc \<or> i = warmup_steps)\<rparr>"

definition average_time_singlenode :: "run_locals \<Rightarrow> unit io" where
  \<comment> \<open>single-node lines 94--95, after the inner loop:
      \<^verbatim>\<open>(time.time() - start) / (i - warmup_steps)\<close>\<close>
  "average_time_singlenode loc =
     seq_io
       [when_io (\<not> loc_start loc) (throw UnboundLocalError),
        bind_io (read_i loc) (\<lambda>i. nonzero_divisor (i - warmup_steps)),
        emit (Print ''Average Training Iteration Time:'')]"

definition average_time_multinode :: "int \<Rightarrow> run_locals \<Rightarrow> unit io" where
  \<comment> \<open>multi-node lines 106--107, inside the inner loop:
      \<^verbatim>\<open>(time.time() - start) / (i - 10)\<close>\<close>
  "average_time_multinode i loc =
     seq_io
       [when_io (\<not> loc_start loc) (throw UnboundLocalError),
        nonzero_divisor (i - 10),
        emit (Print ''Average Training Iteration Time:'')]"

fun train_loop_singlenode ::
  "train_args \<Rightarrow> int \<Rightarrow> 'b list \<Rightarrow> run_locals \<Rightarrow> run_locals iters" where
  "train_loop_singlenode p i [] loc = ([], Inr loc)"
| "train_loop_singlenode p i (b # bs) loc =
     (case papers_step p i of
        (tr, Inl e) \<Rightarrow> ([(i, tr)], Inl e)
      | (tr, Inr u) \<Rightarrow> first_iter i tr (train_loop_singlenode p (i + 1) bs (mark_start i loc)))"

fun train_loop_multinode ::
  "train_args \<Rightarrow> int \<Rightarrow> 'b list \<Rightarrow> run_locals \<Rightarrow> run_locals iters" where
  "train_loop_multinode p i [] loc = ([], Inr loc)"
| "train_loop_multinode p i (b # bs) loc =
     (case then_io (papers_step p i) (average_time_multinode i (mark_start i loc)) of
        (tr, Inl e) \<Rightarrow> ([(i, tr)], Inl e)
      | (tr, Inr u) \<Rightarrow> first_iter i tr (train_loop_multinode p (i + 1) bs (mark_start i loc)))"

definition score_batch :: "'b world \<Rightarrow> phase \<Rightarrow> int \<Rightarrow> 'b \<Rightarrow> run_locals \<Rightarrow> run_locals" where
  \<comment> \<open>the loop header binds \<^verbatim>\<open>i\<close>; then
      \<^verbatim>\<open>acc_sum += acc(out[:batch_size].softmax(dim=-1), batch.y[:batch_size])\<close>\<close>
  "score_batch w ph i b loc =
     loc\<lparr>loc_i := Some i, loc_acc_sum := add_metric (loc_acc_sum loc) (metric w ph b)\<rparr>"

fun valid_loop :: "'b world \<Rightarrow> phase \<Rightarrow> int \<Rightarrow> 'b list \<Rightarrow> run_locals \<Rightarrow> run_locals io" where
  \<comment> \<open>the validation loop of both scripts, with its \<^verbatim>\<open>break\<close> at \<^verbatim>\<open>eval_steps\<close>\<close>
  "valid_loop w ph i [] loc = ok loc"
| "valid_loop w ph i (b # bs) loc =
     (if papers_eval_steps \<le> i then ok (loc\<lparr>loc_i := Some i\<rparr>)
      else prepend [ToDevice, Forward, Metric]
             (valid_loop w ph (i + 1) bs (score_batch w ph i b loc)))"

fun test_loop :: "'b world \<Rightarrow> int \<Rightarrow> 'b list \<Rightarrow> run_locals \<Rightarrow> run_locals io" where
  \<comment> \<open>the test loop of both scripts: every batch of the loader\<close>
  "test_loop w i [] loc = ok loc"
| "test_loop w i (b # bs) loc =
     prepend [ToDevice, Forward, Metric] (test_loop w (i + 1) bs (score_batch w Testing i b loc))"

definition report_accuracy :: "'b world \<Rightarrow> phase \<Rightarrow> string \<Rightarrow> run_locals \<Rightarrow> unit io" where
  \<comment> \<open>the all-reduce and \<^verbatim>\<open>print(f"... Accuracy: {acc_sum/(i) * 100.0:.4f}%")\<close>\<close>
  "report_accuracy w ph label loc =
     then_io (emit AllReduce) (
     bind_io (read_i loc) (\<lambda>i.
     bind_io (lift (div_by_int (all_reduce_mean (loc_acc_sum loc) (peers w ph)) i)) (\<lambda>q.
     emit (PrintValue label (times100 q)))))"

definition papers_test :: "'b world \<Rightarrow> 'b list \<Rightarrow> run_locals \<Rightarrow> unit io" where
  \<comment> \<open>single-node lines 109--119, multi-node lines 121--131\<close>
  "papers_test w test_loader loc =
     bind_io (test_loop w 0 test_loader (loc\<lparr>loc_acc_sum := PyNum 0\<rparr>))
       (report_accuracy w Testing ''Test Accuracy'')"

definition papers_validate :: "'b world \<Rightarrow> int \<Rightarrow> 'b list \<Rightarrow> run_locals \<Rightarrow> run_locals io" where
  \<comment> \<open>single-node lines 96--108, multi-node lines 108--120\<close>
  "papers_validate w epoch eval_loader loc =
     bind_io (valid_loop w (Validation epoch) 0 eval_loader (loc\<lparr>loc_acc_sum := PyNum 0\<rparr>)) (\<lambda>loc1.
     then_io (report_accuracy w (Validation epoch) ''Validation Accuracy'' loc1) (ok loc1))"

definition epoch_singlenode ::
  "train_args \<Rightarrow> 'b world \<Rightarrow> 'b list \<Rightarrow> 'b list \<Rightarrow> int \<Rightarrow> run_locals \<Rightarrow> run_locals io" where
  "epoch_singlenode p w train_loader eval_loader epoch loc =
     bind_io (flat (train_loop_singlenode p 0 train_loader loc)) (\<lambda>loc1.
     then_io (average_time_singlenode loc1) (papers_validate w epoch eval_loader loc1))"

definition epoch_multinode ::
  "train_args \<Rightarrow> 'b world \<Rightarrow> 'b list \<Rightarrow> 'b list \<Rightarrow> int \<Rightarrow> run_locals \<Rightarrow> run_locals io" where
  "epoch_multinode p w train_loader eval_loader epoch loc =
     bind_io (flat (train_loop_multinode p 0 train_loader loc))
       (papers_validate w epoch eval_loader)"

fun for_epochs :: "(int \<Rightarrow> run_locals \<Rightarrow> run_locals io) \<Rightarrow> int list \<Rightarrow> run_locals \<Rightarrow> run_locals io" where
  \<comment> \<open>\<^verbatim>\<open>for epoch in range(epochs)\<close>\<close>
  "for_epochs body [] loc = ok loc"
| "for_epochs body (epoch # es) loc =
     (case body epoch loc of
        (tr, Inl e) \<Rightarrow> (tr, Inl e)
      | (tr, Inr loc') \<Rightarrow> prepend tr (for_epochs body es loc'))"

definition papers_loaders ::
  "train_args \<Rightarrow> 'b world \<Rightarrow> exn + int \<Rightarrow> nat list \<Rightarrow> ('b list \<times> 'b list \<times> 'b list) io" where
  \<comment> \<open>the \<^verbatim>\<open>if cugraph_data_loader: ... else: ...\<close> block; \<open>num_work\<close> is the call of
      \<^verbatim>\<open>get_num_workers\<close>, made in the \<^verbatim>\<open>else\<close> branch only\<close>
  "papers_loaders p w num_work train =
     (if p_cugraph_data_loader p
      then ok (batches w CuGraphNeighborLoader True train,
               batches w CuGraphNeighborLoader False (p_split_valid p),
               batches w CuGraphNeighborLoader False (p_split_test p))
      else bind_io (lift num_work) (\<lambda>n.
           ok (batches w NeighborLoader True train,
               batches w NeighborLoader False (p_split_valid p),
               batches w NeighborLoader False (p_split_test p))))"

definition run_train_singlenode :: "train_args \<Rightarrow> 'b world \<Rightarrow> os_env \<Rightarrow> unit io" where
  \<comment> \<open>singlenode\_multigpu\_papers100m\_gcn.py, lines 28--119\<close>
  "run_train_singlenode p w env =
     then_io (emit InitProcessGroup) (
     bind_io (lift (rank_chunk (p_world_size p) (p_rank p) (p_split_train p))) (\<lambda>train.
     then_io (seq_io [emit ToDevice, make_optimizer]) (
     bind_io (papers_loaders p w (get_num_workers_singlenode (p_world_size p) env) train)
       (\<lambda>(train_loader, eval_loader, test_loader).
     then_io (when_io (p_rank p = 0) (emit (Print ''Beginning training...''))) (
     bind_io (for_epochs (epoch_singlenode p w train_loader eval_loader)
                [0..p_epochs p - 1] fresh_locals)
       (papers_test w test_loader))))))"

definition run_train_multinode :: "train_args \<Rightarrow> 'b world \<Rightarrow> os_env \<Rightarrow> unit io" where
  \<comment> \<open>papers100m\_gcn\_multinode.py, lines 35--134\<close>
  "run_train_multinode p w env =
     then_io (when_io (p_rank p = 0) (seq_io [emit (Print ''Data =''), emit (Print ''Using GPUs...'')])) (
     bind_io (lift (rank_chunk (p_world_size p) (p_rank p) (p_split_train p))) (\<lambda>train.
     then_io (seq_io [emit ToDevice, make_optimizer]) (
     bind_io (papers_loaders p w (get_num_workers_multinode env) train)
       (\<lambda>(train_loader, eval_loader, test_loader).
     then_io (when_io (p_rank p = 0) (emit (Print ''Beginning training...''))) (
     bind_io (for_epochs (epoch_multinode p w train_loader eval_loader)
                [0..p_epochs p - 1] fresh_locals) (\<lambda>loc.
     then_io (papers_test w test_loader loc) (
     when_io (p_rank p = 0) (emit (Print ''Total Program Runtime ='')))))))))"

subsection \<open>The main blocks\<close>

text \<open>The flags argparse hands to the main block of either script.\<close>

record cli_args =
  cli_hidden_channels :: int
  cli_num_layers :: int
  cli_lr :: rat
  cli_epochs :: int
  cli_batch_size :: int
  cli_fan_out :: int
  cli_use_gat_conv :: bool
  cli_n_gat_conv_heads :: int
  cli_cugraph_data_loader :: bool

definition call_positional :: "string list \<Rightarrow> 'a list \<Rightarrow> unit io" where
  \<comment> \<open>calling a function whose parameters have no defaults with positional arguments
      only: \<^verbatim>\<open>TypeError\<close> unless there is one argument per parameter\<close>
  "call_positional params args = (if length args = length params then ok () else throw TypeError)"

definition run_train_multinode_params :: "string list" where
  \<comment> \<open>multi-node lines 35--36\<close>
  "run_train_multinode_params =
     [''data'', ''world_size'', ''model'', ''epochs'', ''batch_size'', ''fan_out'', ''split_idx'',
      ''num_classes'', ''cugraph_data_loader'']"

definition run_train_multinode_call :: "string list" where
  \<comment> \<open>the argument expressions of the call at multi-node lines 189--191\<close>
  "run_train_multinode_call =
     [''data'', ''nprocs'', ''model'', ''args.epochs'', ''args.batch_size'', ''args.fan_out'',
      ''split_idx'', ''dataset.num_classes'', ''args.cugraph_data_loader'', ''wall_clock_start'']"

definition run_train_singlenode_params :: "string list" where
  \<comment> \<open>single-node lines 28--29\<close>
  "run_train_singlenode_params =
     [''rank'', ''data'', ''world_size'', ''model'', ''epochs'', ''batch_size'', ''fan_out'',
      ''split_idx'', ''num_classes'', ''cugraph_data_loader'']"

definition spawn_args_singlenode :: "string list" where
  \<comment> \<open>the \<^verbatim>\<open>args\<close> tuple of \<^verbatim>\<open>mp.spawn\<close> at single-node lines 171--175\<close>
  "spawn_args_singlenode =
     [''data'', ''world_size'', ''model'', ''args.epochs'', ''args.batch_size'', ''args.fan_out'',
      ''split_idx'', ''dataset.num_classes'', ''args.cugraph_data_loader'']"

definition train_args_of ::
  "cli_args \<Rightarrow> int \<Rightarrow> int \<Rightarrow> nat list \<Rightarrow> nat list \<Rightarrow> nat list \<Rightarrow> train_args" where
  \<comment> \<open>the values both main blocks pass on: \<^verbatim>\<open>args.epochs\<close>, \<^verbatim>\<open>args.batch_size\<close>,
      \<^verbatim>\<open>args.fan_out\<close>, \<^verbatim>\<open>split_idx\<close> and \<^verbatim>\<open>args.cugraph_data_loader\<close>\<close>
  "train_args_of args r world_size train valid test =
     \<lparr>p_rank = r, p_world_size = world_size, p_epochs = cli_epochs args,
      p_batch_size = cli_batch_size args, p_fan_out = cli_fan_out args,
      p_cugraph_data_loader = cli_cugraph_data_loader args,
      p_split_train = train, p_split_valid = valid, p_split_test = test\<rparr>"

definition main_multinode ::
  "cli_args \<Rightarrow> int \<Rightarrow> int \<Rightarrow> nat list \<Rightarrow> nat list \<Rightarrow> nat list \<Rightarrow> 'b world \<Rightarrow> os_env \<Rightarrow> unit io" where
  \<comment> \<open>multi-node lines 137--191, in the process of rank \<open>r\<close> among \<open>nprocs\<close>\<close>
  "main_multinode args r nprocs train valid test w env =
     seq_io
       [emit InitProcessGroup,
        call_positional run_train_multinode_params run_train_multinode_call,
        run_train_multinode (train_args_of args r nprocs train valid test) w env]"

definition spawned_singlenode ::
  "cli_args \<Rightarrow> int \<Rightarrow> int \<Rightarrow> nat list \<Rightarrow> nat list \<Rightarrow> nat list \<Rightarrow> 'b world \<Rightarrow> os_env \<Rightarrow> unit io" where
  \<comment> \<open>what \<^verbatim>\<open>mp.spawn\<close> runs in the process of index \<open>r\<close>: \<^verbatim>\<open>run_train(r, *args)\<close>\<close>
  "spawned_singlenode args r world_size train valid test w env =
     seq_io
       [call_positional run_train_singlenode_params (''i'' # spawn_args_singlenode),
        run_train_singlenode (train_args_of args r world_size train valid test) w env]"

definition main_singlenode :: "cli_args \<Rightarrow> exn + unit \<Rightarrow> unit io" where
  \<comment> \<open>single-node lines 122--175 in the parent process; \<open>spawn_outcome\<close> is what
      \<^verbatim>\<open>mp.spawn\<close> does there: return, or raise\<close>
  "main_singlenode args spawn_outcome =
     seq_io [emit (Print ''Data =''), emit (Print ''Lets use GPUs!''), lift spawn_outcome]"

section \<open>Reading traces\<close>

fun is_step_op :: "event \<Rightarrow> bool" where
  \<comment> \<open>the five operations of a training step\<close>
  "is_step_op ZeroGrad = True"
| "is_step_op Forward = True"
| "is_step_op (CrossEntropy k) = True"
| "is_step_op Backward = True"
| "is_step_op OptStep = True"
| "is_step_op _ = False"

fun is_print :: "event \<Rightarrow> bool" where
  "is_print (Print s) = True"
| "is_print (PrintValue s v) = True"
| "is_print _ = False"

fun saved_files :: "event list \<Rightarrow> string list" where
  \<comment> \<open>the files written by \<^verbatim>\<open>torch.save\<close>, in order\<close>
  "saved_files [] = []"
| "saved_files (Save f # tr) = f # saved_files tr"
| "saved_files (ev # tr) = saved_files tr"

fun adam_lrs :: "event list \<Rightarrow> rat list" where
  \<comment> \<open>the learning rates of the Adam optimizers constructed\<close>
  "adam_lrs [] = []"
| "adam_lrs (MakeAdam l wd # tr) = l # adam_lrs tr"
| "adam_lrs (ev # tr) = adam_lrs tr"

definition spec_test_accuracy :: "rat list \<Rightarrow> rat list \<Rightarrow> rat" where
  \<comment> \<open>the specification's words: 100 times the cross-rank mean of the sum of the
      per-batch accuracies (this rank's sum and the other ranks' sums), divided by the
      number of test batches processed\<close>
  "spec_test_accuracy accs others =
     100 * ((sum_list accs + sum_list others) / of_nat (Suc (length others)))
       / of_nat (length accs)"

definition unit_world :: "rat \<Rightarrow> nat world" where
  \<comment> \<open>a library whose loaders yield one batch per input node and whose metric is the
      same on every batch, on a single rank\<close>
  "unit_world a =
     \<lparr>batches = (\<lambda>cls drop_last idx. idx), seed_count = (\<lambda>b. 1),
      metric = (\<lambda>ph b. a), peers = (\<lambda>ph. [])\<rparr>"

section \<open>The flags' defaults and a small graph\<close>

definition default_run_args :: run_args where
  \<comment> \<open>the defaults of the flags of mag240m\_graphsage.py, lines 273--289\<close>
  "default_run_args =
     \<lparr>rank = 0, n_devices = 1, num_epochs = 1, num_steps_per_epoch = - 1,
      log_every_n_steps = 1, batch_size = 1024, sizes = [25, 15], hidden_channels = 1024,
      dropout = 1 / 2, eval_steps = 100, num_warmup_iters_for_timing = 100, debug = False\<rparr>"

definition default_cli_args :: cli_args where
  \<comment> \<open>the defaults of the flags of the two papers100M scripts\<close>
  "default_cli_args =
     \<lparr>cli_hidden_channels = 128, cli_num_layers = 2, cli_lr = 1 / 1000, cli_epochs = 3,
      cli_batch_size = 2048, cli_fan_out = 16, cli_use_gat_conv = False,
      cli_n_gat_conv_heads = 4, cli_cugraph_data_loader = False\<rparr>"

definition tiny_graph :: hetero_data where
  \<comment> \<open>a graph with the node and edge types of MAG240M and a few paper indices\<close>
  "tiny_graph =
     \<lparr>node_types = [''paper'', ''author'', ''institution''],
      edge_types = [(''author'', ''affiliated_with'', ''institution''),
                    (''author'', ''writes'', ''paper''), (''paper'', ''cites'', ''paper'')],
      train_idx = [0, 1, 2, 3], val_idx = [4, 5], test_idx = [6, 7]\<rparr>"

definition eight_cpus :: os_env where
  "eight_cpus = \<lparr>has_sched_getaffinity = True, affinity_count = Inr 8, cpu_count = Some 8\<rparr>"

definition quiet :: "'a io \<Rightarrow> bool" where
  \<comment> \<open>a computation that writes no file and does not end in a failed \<^verbatim>\<open>assert\<close>\<close>
  "quiet m = (saved_files (fst m) = [] \<and> snd m \<noteq> Inl AssertionError)"

fun is_tensor :: "acc_val \<Rightarrow> bool" where
  "is_tensor (Tens v) = True"
| "is_tensor (PyNum v) = False"


definition step_ops :: "int \<Rightarrow> event list" where
  \<comment> \<open>the order the specification gives for a training iteration, the loss being taken
      on the first \<open>k\<close> outputs\<close>
  "step_ops k = [ZeroGrad, Forward, CrossEntropy k, Backward, OptStep]"

section \<open>Rules for running the trace combinators\<close>

lemma bind_io_Inl [simp]: "bind_io (tr, Inl e) f = (tr, Inl e)"
  by (simp add: bind_io_def)

lemma bind_io_Inr [simp]: "bind_io (tr, Inr x) f = prepend tr (f x)"
  by (simp add: bind_io_def)

lemma prepend_pair [simp]: "prepend tr (tr', r) = (tr @ tr', r)"
  by (simp add: prepend_def)

lemma prepend_Nil [simp]: "prepend [] m = m"
  by (simp add: prepend_def)

lemma fst_prepend [simp]: "fst (prepend tr m) = tr @ fst m"
  by (simp add: prepend_def)

lemma snd_prepend [simp]: "snd (prepend tr m) = snd m"
  by (simp add: prepend_def)

lemma snd_bind_io_raise: "snd m = Inl e \<Longrightarrow> snd (bind_io m f) = Inl e"
  by (simp add: bind_io_def)

lemma snd_bind_io_return: "snd m = Inr x \<Longrightarrow> snd (bind_io m f) = snd (f x)"
  by (simp add: bind_io_def)

lemma fst_bind_io_return: "snd m = Inr x \<Longrightarrow> fst (bind_io m f) = fst m @ fst (f x)"
  by (simp add: bind_io_def)

lemma fst_bind_io_raise: "snd m = Inl e \<Longrightarrow> fst (bind_io m f) = fst m"
  by (simp add: bind_io_def)

lemmas io_defs = ok_def throw_def emit_def lift_def then_io_def when_io_def

section \<open>Constructing the GraphSAGE model\<close>

lemma load_bound: "x \<in> set ns \<Longrightarrow> load_name ns x = ([], Inr ())"
  by (simp add: load_name_def ok_def)

lemma load_unbound: "x \<notin> set ns \<Longrightarrow> load_name ns x = ([], Inl NameError)"
  by (simp add: load_name_def throw_def)

lemma mag240m_unbound:
  "''nn'' \<notin> set (mag240m_globals m d)"
  "''conv_type'' \<notin> set (mag240m_globals m d)"
  "''kwargs'' \<notin> set (mag240m_globals m d)"
  "''num_layers'' \<notin> set (mag240m_globals m d)"
  by (simp_all add: mag240m_globals_def py_builtins_def)

lemma mag240m_bound:
  "''super'' \<in> set (mag240m_globals m d)"
  "''HeteroConv'' \<in> set (mag240m_globals m d)"
  "''torch'' \<in> set (mag240m_globals m d)"
  "''SAGEConvLayer'' \<in> set (mag240m_globals m d)"
  "''range'' \<in> set (mag240m_globals m d)"
  by (simp_all add: mag240m_globals_def py_builtins_def)

lemma SAGEConvLayer_init_NameError:
  "SAGEConvLayer_init (mag240m_globals m d) data = ([], Inl NameError)"
  by (cases "edge_types data")
     (simp_all add: SAGEConvLayer_init_def then_io_def ok_def load_bound load_unbound
        mag240m_bound mag240m_unbound)

lemma GraphSAGE_init_NameError:
  "GraphSAGE_init (mag240m_globals m d) k data = ([], Inl NameError)"
  by (simp add: GraphSAGE_init_def then_io_def load_bound mag240m_bound
        SAGEConvLayer_init_NameError)

lemma run_result_NameError:
  "snd (run (mag240m_globals m d) a data w) = Inl NameError"
  by (simp add: run_def run_setup_def io_defs GraphSAGE_init_NameError)

text \<open>
  C1.  In mag240m\_graphsage.py the constructor of \<^verbatim>\<open>GraphSAGE\<close> raises \<^verbatim>\<open>NameError\<close>
  for every number of layers and every graph, because \<^verbatim>\<open>SAGEConvLayer.__init__\<close> reads
  names the module does not bind; so every call of \<^verbatim>\<open>run\<close>, in the main process or in
  a spawned one, with any arguments, ends in \<^verbatim>\<open>NameError\<close> after the set-up messages
  and before any operation of a training step.
\<close>

theorem run_raises_NameError:
  "GraphSAGE_init (mag240m_globals as_main dbg) k data = ([], Inl NameError) \<and>
   run (mag240m_globals as_main dbg) a data w =
     ((if 1 < n_devices a
       then (if rank a = 0 then [Print ''Setting up distributed...''] else []) @ [InitProcessGroup]
       else []) @
      (if rank a = 0 then [Print ''Setting up GNN...''] else []),
      Inl NameError) \<and>
   filter is_step_op (fst (run (mag240m_globals as_main dbg) a data w)) = []"
  by (simp add: run_def run_setup_def io_defs GraphSAGE_init_NameError)

section \<open>The learning rate\<close>

text \<open>
  C2 at \<^verbatim>\<open>--lr 0.5\<close>: the process that \<^verbatim>\<open>mp.spawn\<close> starts in the single-node script
  constructs its only Adam optimizer with the learning rate 0.01; \<^verbatim>\<open>args.lr\<close> is not
  among the values the main block passes on.
\<close>

theorem adam_ignores_lr_flag:
  "adam_lrs (fst (spawned_singlenode
      \<lparr>cli_hidden_channels = 128, cli_num_layers = 2, cli_lr = 1 / 2, cli_epochs = 0,
       cli_batch_size = 2048, cli_fan_out = 16, cli_use_gat_conv = False,
       cli_n_gat_conv_heads = 4, cli_cugraph_data_loader = False\<rparr>
      0 1 [0, 1] [2, 3] [4, 5] (unit_world (1 / 2))
      \<lparr>has_sched_getaffinity = True, affinity_count = Inr 8, cpu_count = Some 8\<rparr>)) = [1 / 100]"
  by (simp add: spawned_singlenode_def call_positional_def run_train_singlenode_params_def
        spawn_args_singlenode_def run_train_singlenode_def train_args_of_def io_defs
        rank_chunk_def py_floordiv_def bind_exn_def tensor_split_def py_index_def
        chunks.simps make_optimizer_def papers_loaders_def get_num_workers_singlenode_def
        try_affinity_def unit_world_def papers_test_def report_accuracy_def read_i_def
        fresh_locals_def score_batch_def all_reduce_mean.simps add_metric_def)

section \<open>The call of \<^verbatim>\<open>run_train\<close> in the multi-node script\<close>

text \<open>
  C3, as stated: the call passes 11 positional arguments to a function of 10
  parameters.  The counts in the source are different.
\<close>

theorem run_train_call_not_11_for_10:
  "\<not> (length run_train_multinode_call = 11 \<and> length run_train_multinode_params = 10)"
  by (simp add: run_train_multinode_call_def)

text \<open>
  C3, amended.  Every execution of the main block of papers100m\_gcn\_multinode.py that
  reaches the call of \<^verbatim>\<open>run_train\<close> raises \<^verbatim>\<open>TypeError\<close> there, before any statement
  of \<^verbatim>\<open>run_train\<close> runs: the call passes 10 positional arguments and the function has
  9 parameters.
\<close>

theorem main_multinode_TypeError:
  "main_multinode args r nprocs train valid test w env = ([InitProcessGroup], Inl TypeError) \<and>
   length run_train_multinode_call = 10 \<and> length run_train_multinode_params = 9"
  by (simp add: main_multinode_def call_positional_def run_train_multinode_call_def
        run_train_multinode_params_def io_defs)

section \<open>The number of loader workers\<close>

text \<open>
  C4, as stated: \<^verbatim>\<open>get_num_workers\<close> returns a positive integer in every environment.
  With a single CPU in the affinity set the multi-node function returns 0.
\<close>

theorem get_num_workers_not_positive:
  "get_num_workers_multinode
     \<lparr>has_sched_getaffinity = True, affinity_count = Inr 1, cpu_count = Some 1\<rparr> = Inr 0"
  by (simp add: get_num_workers_multinode_def try_affinity_def bind_exn_def py_floordiv_def)

text \<open>
  C4, amended.  For a world size of at least 1: when \<^verbatim>\<open>os.sched_getaffinity\<close> exists
  and returns a set of \<open>n\<close> CPUs, \<^verbatim>\<open>get_num_workers\<close> returns \<open>n div 2\<close> in the
  multi-node script and \<open>n div (2 * world_size)\<close> in the single-node script; when it is
  missing or raises an \<^verbatim>\<open>Exception\<close>, and \<^verbatim>\<open>os.cpu_count()\<close> is a number \<open>c\<close>, it
  returns \<open>c\<close> divided by the same factor.  Every value returned is non-negative, and
  the multi-node value is positive exactly when the affinity set has two CPUs or more.
\<close>

theorem get_num_workers_value:
  assumes "1 \<le> world_size"
  shows "(has_sched_getaffinity env \<and> affinity_count env = Inr n \<longrightarrow>
            get_num_workers_multinode env = Inr (int n div 2) \<and>
            get_num_workers_singlenode world_size env = Inr (int n div (2 * world_size)) \<and>
            ((\<exists>k. 0 < k \<and> get_num_workers_multinode env = Inr k) \<longleftrightarrow> 2 \<le> n)) \<and>
         ((\<not> has_sched_getaffinity env \<or> (\<exists>e. affinity_count env = Inl e \<and> is_Exception e)) \<and>
          cpu_count env = Some c \<longrightarrow>
            get_num_workers_multinode env = Inr (int c div 2) \<and>
            get_num_workers_singlenode world_size env = Inr (int c div (2 * world_size))) \<and>
         (\<forall>k. get_num_workers_multinode env = Inr k \<or>
              get_num_workers_singlenode world_size env = Inr k \<longrightarrow> 0 \<le> k)"
proof -
  from assms have nz: "2 * world_size \<noteq> 0" by simp
  have pos: "0 \<le> int m div (2 * world_size)" for m
    using assms by (simp add: pos_imp_zdiv_nonneg_iff)
  have two: "(0 < int n div 2) = (2 \<le> n)" by presburger
  show ?thesis
    using nz pos two
    by (auto simp: get_num_workers_multinode_def get_num_workers_singlenode_def try_affinity_def
          cpu_count_fallback_def bind_exn_def py_floordiv_def
          split: sum.splits option.splits if_splits)
qed

theorem get_num_workers_value_witness:
  "get_num_workers_multinode
     \<lparr>has_sched_getaffinity = True, affinity_count = Inr 8, cpu_count = Some 16\<rparr> = Inr 4 \<and>
   get_num_workers_singlenode 2
     \<lparr>has_sched_getaffinity = True, affinity_count = Inr 8, cpu_count = Some 16\<rparr> = Inr 2 \<and>
   get_num_workers_multinode
     \<lparr>has_sched_getaffinity = False, affinity_count = Inr 8, cpu_count = Some 16\<rparr> = Inr 8 \<and>
   get_num_workers_singlenode 2
     \<lparr>has_sched_getaffinity = True, affinity_count = Inl OSError, cpu_count = Some 16\<rparr> = Inr 4"
proof -
  have h: "(1::int) \<le> 2" by simp
  have a: "get_num_workers_multinode
     \<lparr>has_sched_getaffinity = True, affinity_count = Inr 8, cpu_count = Some 16\<rparr> = Inr 4 \<and>
   get_num_workers_singlenode 2
     \<lparr>has_sched_getaffinity = True, affinity_count = Inr 8, cpu_count = Some 16\<rparr> = Inr 2"
    using get_num_workers_value [OF h,
        of "\<lparr>has_sched_getaffinity = True, affinity_count = Inr 8, cpu_count = Some 16\<rparr>" 8 16]
    by simp
  have b: "get_num_workers_multinode
     \<lparr>has_sched_getaffinity = False, affinity_count = Inr 8, cpu_count = Some 16\<rparr> = Inr 8"
    using get_num_workers_value [OF h,
        of "\<lparr>has_sched_getaffinity = False, affinity_count = Inr 8, cpu_count = Some 16\<rparr>" 8 16]
    by simp
  have c: "get_num_workers_singlenode 2
     \<lparr>has_sched_getaffinity = True, affinity_count = Inl OSError, cpu_count = Some 16\<rparr> = Inr 4"
    using get_num_workers_value [OF h,
        of "\<lparr>has_sched_getaffinity = True, affinity_count = Inl OSError, cpu_count = Some 16\<rparr>" 8 16]
    by simp
  from a b c show ?thesis by simp
qed

section \<open>The printed test accuracy\<close>

text \<open>
  C5 on two test batches of accuracy 1/2 each, on a single rank: the papers100M test
  evaluation prints 100 per cent, since it divides by the index of the last batch; the
  specification's formula gives 50.
\<close>

theorem test_accuracy_off_by_one:
  "papers_test (unit_world (1 / 2)) [7, 8] fresh_locals =
     ([ToDevice, Forward, Metric, ToDevice, Forward, Metric, AllReduce,
       PrintValue ''Test Accuracy'' (Fin 100)], Inr ()) \<and>
   spec_test_accuracy [1 / 2, 1 / 2] [] = 50"
  by (simp add: papers_test_def report_accuracy_def read_i_def fresh_locals_def
        score_batch_def add_metric_def unit_world_def spec_test_accuracy_def io_defs)

text \<open>
  In mag240m\_graphsage.py the divisor is \<^verbatim>\<open>i + 1\<close>, the number of batches when the
  loader is exhausted.  When the loop leaves at \<^verbatim>\<open>eval_steps\<close> it is one more than
  the number of batches processed: with \<^verbatim>\<open>eval_steps = 1\<close> and two batches, one batch
  of accuracy 1/2 is scored and 25 per cent is printed.
\<close>

lemma run_test_break_example:
  "run_test (mag240m_globals False False)
     \<lparr>rank = 0, n_devices = 2, num_epochs = 1, num_steps_per_epoch = - 1,
      log_every_n_steps = 1, batch_size = 1024, sizes = [25, 15], hidden_channels = 1024,
      dropout = 1 / 2, eval_steps = 1, num_warmup_iters_for_timing = 100, debug = False\<rparr>
     (unit_world (1 / 2)) [7, 8] fresh_locals =
     ([Barrier, ToDevice, Forward, Metric, AllReduce, PrintValue ''Test Accuracy'' (Fin 25)],
      Inr (Fin 25))"
  by (simp add: run_test_def evaluate_def validation_step_def common_step_def
        GraphSAGE_forward_def num_layers_of_def read_i_def fresh_locals_def
        add_metric_def unit_world_def io_defs)

section \<open>Exception handlers\<close>

text \<open>
  C6, as stated: no exception other than the \<^verbatim>\<open>ProcessExitedException\<close> of \<^verbatim>\<open>mp.spawn\<close>
  is caught in any of the three scripts.  An \<^verbatim>\<open>OSError\<close> raised by
  \<^verbatim>\<open>os.sched_getaffinity\<close> is caught in \<^verbatim>\<open>get_num_workers\<close>, which then returns.
\<close>

theorem affinity_error_swallowed:
  "get_num_workers_multinode
     \<lparr>has_sched_getaffinity = True, affinity_count = Inl OSError, cpu_count = Some 8\<rparr> = Inr 4"
  by (simp add: get_num_workers_multinode_def try_affinity_def cpu_count_fallback_def
        bind_exn_def py_floordiv_def)

text \<open>
  C6, amended.  Only mag240m\_graphsage.py catches a failure of \<^verbatim>\<open>mp.spawn\<close>: with
  more than one device, a \<^verbatim>\<open>ProcessExitedException\<close> is printed with the hint about
  RAM and the main block ends normally, and any other exception of \<^verbatim>\<open>mp.spawn\<close>
  leaves the main block; with one device or none \<^verbatim>\<open>run\<close> is called directly and its
  exception leaves the main block.  The single-node papers100M script lets every
  exception of \<^verbatim>\<open>mp.spawn\<close> through (the multi-node script spawns nothing).  The one
  other handler of the three scripts is the \<^verbatim>\<open>except Exception: pass\<close> of
  \<^verbatim>\<open>get_num_workers\<close>: what \<^verbatim>\<open>os.sched_getaffinity\<close> raises is swallowed when it is
  an \<^verbatim>\<open>Exception\<close> and passed on otherwise.
\<close>

theorem spawn_failure_handling:
  "(1 < n_devices args \<and> n_devices args \<le> device_count \<longrightarrow>
      main_mag240m args subgraph True device_count (Inl e) data w =
        ([Print ''args'', Print ''Loading Data...'', Print ''Data =''] @
         (if subgraph < 1 then [Print ''Making a subgraph of the data''] else []) @
         [Print ''Lets use GPUs!''] @
         (if e = ProcessExitedException
          then [Print ''torch.multiprocessing.spawn.ProcessExitedException:'',
                Print ''Exceptions/SIGBUS/Errors may be caused by a lack of RAM'']
          else []),
         if e = ProcessExitedException then Inr () else Inl e)) \<and>
   (n_devices args \<le> 1 \<longrightarrow>
      snd (main_mag240m args subgraph cuda device_count outcome data w) = Inl NameError) \<and>
   snd (main_singlenode cargs (Inl e)) = Inl e \<and>
   try_affinity \<lparr>has_sched_getaffinity = True, affinity_count = Inl e, cpu_count = c\<rparr> factor =
     (if is_Exception e then Inr None else Inl e)"
proof (intro conjI impI)
  assume "1 < n_devices args \<and> n_devices args \<le> device_count"
  then show "main_mag240m args subgraph True device_count (Inl e) data w =
        ([Print ''args'', Print ''Loading Data...'', Print ''Data =''] @
         (if subgraph < 1 then [Print ''Making a subgraph of the data''] else []) @
         [Print ''Lets use GPUs!''] @
         (if e = ProcessExitedException
          then [Print ''torch.multiprocessing.spawn.ProcessExitedException:'',
                Print ''Exceptions/SIGBUS/Errors may be caused by a lack of RAM'']
          else []),
         if e = ProcessExitedException then Inr () else Inl e)"
    by (simp add: main_mag240m_def io_defs)
next
  assume n: "n_devices args \<le> 1"
  have r: "snd (bind_io (run (mag240m_globals True (debug args)) a data w) f) = Inl NameError"
    for a and f :: "unit \<Rightarrow> unit io"
    by (rule snd_bind_io_raise) (rule run_result_NameError)
  show "snd (main_mag240m args subgraph cuda device_count outcome data w) = Inl NameError"
    using n by (simp add: main_mag240m_def io_defs Let_def r snd_bind_io_raise)
next
  show "snd (main_singlenode cargs (Inl e)) = Inl e"
    by (simp add: main_singlenode_def io_defs)
next
  show "try_affinity \<lparr>has_sched_getaffinity = True, affinity_count = Inl e, cpu_count = c\<rparr> factor =
     (if is_Exception e then Inr None else Inl e)"
    by (simp add: try_affinity_def bind_exn_def)
qed


theorem spawn_failure_handling_witness:
  "snd (main_mag240m (default_run_args\<lparr>n_devices := 2\<rparr>) 1 True 2
          (Inl ProcessExitedException) tiny_graph (unit_world (1 / 2))) = Inr () \<and>
   snd (main_mag240m (default_run_args\<lparr>n_devices := 2\<rparr>) 1 True 2
          (Inl ProcessRaisedException) tiny_graph (unit_world (1 / 2))) = Inl ProcessRaisedException \<and>
   snd (main_mag240m default_run_args 1 True 1 (Inr ()) tiny_graph (unit_world (1 / 2))) =
     Inl NameError \<and>
   snd (main_singlenode default_cli_args (Inl ProcessRaisedException)) = Inl ProcessRaisedException"
proof -
  have h2: "1 < n_devices (default_run_args\<lparr>n_devices := 2\<rparr>) \<and>
            n_devices (default_run_args\<lparr>n_devices := 2\<rparr>) \<le> 2"
    by (simp add: default_run_args_def)
  have h1: "n_devices default_run_args \<le> 1"
    by (simp add: default_run_args_def)
  have a: "snd (main_mag240m (default_run_args\<lparr>n_devices := 2\<rparr>) 1 True 2
          (Inl ProcessExitedException) tiny_graph (unit_world (1 / 2))) = Inr ()"
    using h2 spawn_failure_handling [where args = "default_run_args\<lparr>n_devices := 2\<rparr>"
        and device_count = 2 and e = ProcessExitedException and subgraph = 1
        and data = tiny_graph and w = "unit_world (1 / 2)"]
    by simp
  have b: "snd (main_mag240m (default_run_args\<lparr>n_devices := 2\<rparr>) 1 True 2
          (Inl ProcessRaisedException) tiny_graph (unit_world (1 / 2))) = Inl ProcessRaisedException \<and>
      snd (main_singlenode default_cli_args (Inl ProcessRaisedException)) = Inl ProcessRaisedException"
    using h2 spawn_failure_handling [where args = "default_run_args\<lparr>n_devices := 2\<rparr>"
        and device_count = 2 and e = ProcessRaisedException and subgraph = 1
        and data = tiny_graph and w = "unit_world (1 / 2)" and cargs = default_cli_args]
    by simp
  have c: "snd (main_mag240m default_run_args 1 True 1 (Inr ()) tiny_graph (unit_world (1 / 2))) =
     Inl NameError"
    using h1 spawn_failure_handling [where args = default_run_args
        and device_count = 1 and cuda = True and outcome = "Inr ()" and subgraph = 1
        and data = tiny_graph and w = "unit_world (1 / 2)"]
    by simp
  from a b c show ?thesis by simp
qed

section \<open>Which computations write a file or fail an assertion\<close>

lemma saved_files_append [simp]: "saved_files (tr @ tr') = saved_files tr @ saved_files tr'"
  by (induction tr rule: saved_files.induct) simp_all

lemma quiet_ok [simp]: "quiet (ok x)"
  by (simp add: quiet_def ok_def)

lemma quiet_throw [simp]: "e \<noteq> AssertionError \<Longrightarrow> quiet (throw e)"
  by (simp add: quiet_def throw_def)

lemma quiet_emit [simp]: "saved_files [ev] = [] \<Longrightarrow> quiet (emit ev)"
  by (simp add: quiet_def emit_def)

lemma quiet_lift [simp]: "r \<noteq> Inl AssertionError \<Longrightarrow> quiet (lift r)"
  by (simp add: quiet_def lift_def)

lemma quiet_prepend [simp]: "saved_files tr = [] \<Longrightarrow> quiet m \<Longrightarrow> quiet (prepend tr m)"
  by (simp add: quiet_def)

lemma quiet_bind: "quiet m \<Longrightarrow> (\<And>x. quiet (f x)) \<Longrightarrow> quiet (bind_io m f)"
  by (cases m; cases "snd m") (auto simp: quiet_def)

lemma quiet_then: "quiet m \<Longrightarrow> quiet n \<Longrightarrow> quiet (then_io m n)"
  by (simp add: then_io_def quiet_bind)

lemma quiet_when: "(c \<Longrightarrow> quiet m) \<Longrightarrow> quiet (when_io c m)"
  by (simp add: when_io_def)


lemma quiet_seq_Cons: "quiet m \<Longrightarrow> quiet (seq_io ms) \<Longrightarrow> quiet (seq_io (m # ms))"
  by (simp add: quiet_then)

lemma quiet_seq_Nil: "quiet (seq_io [])"
  by simp

lemma quiet_pair: "saved_files tr = [] \<Longrightarrow> r \<noteq> Inl AssertionError \<Longrightarrow> quiet (tr, r)"
  by (simp add: quiet_def)

lemma quiet_first_iter:
  "saved_files tr = [] \<Longrightarrow> quiet (flat l) \<Longrightarrow> quiet (flat (first_iter i tr l))"
  by (simp add: quiet_def flat_def first_iter_def)

lemmas quiet_intros =
  quiet_bind quiet_then quiet_when quiet_seq_Cons quiet_seq_Nil quiet_ok quiet_emit quiet_lift
  quiet_throw

lemma quiet_read_i: "quiet (read_i loc)"
  by (simp add: read_i_def split: option.splits)

lemma quiet_nonzero: "quiet (nonzero_divisor d)"
  by (simp add: nonzero_divisor_def)

lemma quiet_load: "quiet (load_name ns x)"
  by (simp add: load_name_def)

lemma div_by_int_no_assert: "div_by_int s d \<noteq> Inl AssertionError"
  by (cases s) auto


lemma rank_chunk_no_assert: "rank_chunk ws r xs \<noteq> Inl AssertionError"
  by (auto simp: rank_chunk_def bind_exn_def py_floordiv_def tensor_split_def py_index_def
      split: sum.splits if_splits)


lemma try_affinity_no_assert: "try_affinity env f \<noteq> Inl AssertionError"
  by (auto simp: try_affinity_def bind_exn_def py_floordiv_def split: sum.splits if_splits)

lemma cpu_count_fallback_no_assert: "cpu_count_fallback env f \<noteq> Inl AssertionError"
  by (auto simp: cpu_count_fallback_def py_floordiv_def split: option.splits)

lemma get_num_workers_no_assert:
  "get_num_workers_multinode env \<noteq> Inl AssertionError"
  "get_num_workers_singlenode ws env \<noteq> Inl AssertionError"
  using try_affinity_no_assert cpu_count_fallback_no_assert
  by (auto simp: get_num_workers_multinode_def get_num_workers_singlenode_def bind_exn_def
      split: sum.splits option.splits)

subsection \<open>The papers100M scripts write no file\<close>

lemma quiet_papers_step: "quiet (papers_step p i)"
  unfolding papers_step_def by (intro quiet_intros) simp_all

lemma saved_papers_step: "saved_files (fst (papers_step p i)) = []"
  using quiet_papers_step by (simp add: quiet_def)

lemma quiet_average_time_singlenode: "quiet (average_time_singlenode loc)"
  unfolding average_time_singlenode_def
  by (intro quiet_intros quiet_read_i quiet_nonzero) simp_all

lemma quiet_average_time_multinode: "quiet (average_time_multinode i loc)"
  unfolding average_time_multinode_def
  by (intro quiet_intros quiet_nonzero) simp_all

lemma quiet_train_loop_singlenode: "quiet (flat (train_loop_singlenode p i bs loc))"
proof (induction bs arbitrary: i loc)
  case Nil
  show ?case by (simp add: flat_def quiet_def)
next
  case (Cons b bs)
  obtain tr r where s: "papers_step p i = (tr, r)" by (cases "papers_step p i")
  with quiet_papers_step [of p i] have q: "saved_files tr = []" "r \<noteq> Inl AssertionError"
    by (simp_all add: quiet_def)
  show ?case
  proof (cases r)
    case (Inl e)
    with s q show ?thesis by (simp add: flat_def quiet_def)
  next
    case (Inr u)
    with s q Cons.IH show ?thesis by (simp add: quiet_first_iter)
  qed
qed

lemma quiet_train_loop_multinode: "quiet (flat (train_loop_multinode p i bs loc))"
proof (induction bs arbitrary: i loc)
  case Nil
  show ?case by (simp add: flat_def quiet_def)
next
  case (Cons b bs)
  let ?m = "then_io (papers_step p i) (average_time_multinode i (mark_start i loc))"
  have qm: "quiet ?m"
    by (intro quiet_then quiet_papers_step quiet_average_time_multinode)
  obtain tr r where s: "?m = (tr, r)" by (cases ?m)
  with qm have q: "saved_files tr = []" "r \<noteq> Inl AssertionError"
    by (simp_all add: quiet_def)
  show ?case
  proof (cases r)
    case (Inl e)
    with s q show ?thesis by (simp add: flat_def quiet_def)
  next
    case (Inr u)
    with s q Cons.IH show ?thesis by (simp add: quiet_first_iter)
  qed
qed

lemma quiet_valid_loop: "quiet (valid_loop w ph i bs loc)"
  by (induction bs arbitrary: i loc) simp_all

lemma quiet_test_loop: "quiet (test_loop w i bs loc)"
  by (induction bs arbitrary: i loc) simp_all

lemma quiet_report_accuracy: "quiet (report_accuracy w ph label loc)"
  unfolding report_accuracy_def
  by (intro quiet_intros quiet_read_i div_by_int_no_assert) simp_all

lemma quiet_papers_test: "quiet (papers_test w bs loc)"
  unfolding papers_test_def by (intro quiet_bind quiet_test_loop quiet_report_accuracy)

lemma quiet_papers_validate: "quiet (papers_validate w epoch bs loc)"
  unfolding papers_validate_def
  by (intro quiet_bind quiet_then quiet_valid_loop quiet_report_accuracy quiet_ok)

lemma quiet_epoch_singlenode: "quiet (epoch_singlenode p w trl evl epoch loc)"
  unfolding epoch_singlenode_def
  by (intro quiet_bind quiet_then quiet_train_loop_singlenode quiet_average_time_singlenode
        quiet_papers_validate)

lemma quiet_epoch_multinode: "quiet (epoch_multinode p w trl evl epoch loc)"
  unfolding epoch_multinode_def
  by (intro quiet_bind quiet_train_loop_multinode quiet_papers_validate)

lemma quiet_for_epochs:
  assumes "\<And>epoch loc. quiet (body epoch loc)"
  shows "quiet (for_epochs body es loc)"
proof (induction es arbitrary: loc)
  case Nil
  show ?case by simp
next
  case (Cons epoch es)
  obtain tr r where s: "body epoch loc = (tr, r)" by (cases "body epoch loc")
  with assms [of epoch loc] have q: "saved_files tr = []" "r \<noteq> Inl AssertionError"
    by (simp_all add: quiet_def)
  show ?case
  proof (cases r)
    case (Inl e)
    with s q show ?thesis by (simp add: quiet_def)
  next
    case (Inr loc')
    with s q Cons.IH show ?thesis by simp
  qed
qed

lemma quiet_papers_loaders:
  "num_work \<noteq> Inl AssertionError \<Longrightarrow> quiet (papers_loaders p w num_work train)"
  unfolding papers_loaders_def by (auto intro!: quiet_intros)

lemma quiet_run_train_singlenode: "quiet (run_train_singlenode p w env)"
  unfolding run_train_singlenode_def make_optimizer_def
  by (intro quiet_intros quiet_papers_loaders quiet_for_epochs quiet_epoch_singlenode
        quiet_papers_test rank_chunk_no_assert get_num_workers_no_assert)
     (simp_all add: split_def quiet_bind quiet_then quiet_when quiet_for_epochs
        quiet_epoch_singlenode quiet_papers_test)

lemma quiet_run_train_multinode: "quiet (run_train_multinode p w env)"
  unfolding run_train_multinode_def make_optimizer_def
  by (intro quiet_intros quiet_papers_loaders quiet_for_epochs quiet_epoch_multinode
        quiet_papers_test rank_chunk_no_assert get_num_workers_no_assert)
     (simp_all add: split_def quiet_bind quiet_then quiet_when quiet_for_epochs
        quiet_epoch_multinode quiet_papers_test)

subsection \<open>mag240m: nothing is written and no assertion fails before the last lines\<close>



lemma quiet_GraphSAGE_forward: "quiet (GraphSAGE_forward ns k)"
  unfolding GraphSAGE_forward_def
  by (intro quiet_seq_Cons quiet_seq_Nil quiet_load quiet_when quiet_emit) simp


lemma quiet_validation_step: "quiet (validation_step ns k)"
  unfolding validation_step_def common_step_def
  by (intro quiet_seq_Cons quiet_seq_Nil quiet_GraphSAGE_forward quiet_emit) simp_all






lemma quiet_eval_loop: "quiet (eval_loop ns a w ph i bs loc)"
proof (induction bs arbitrary: i loc)
  case Nil
  show ?case by simp
next
  case (Cons b bs)
  let ?m = "seq_io [when_io (0 < n_devices a) (emit ToDevice),
                    validation_step ns (num_layers_of a)]"
  have qm: "quiet ?m"
    by (intro quiet_seq_Cons quiet_seq_Nil quiet_when quiet_emit quiet_validation_step) simp
  obtain tr r where s: "?m = (tr, r)" by (cases ?m)
  with qm have q: "saved_files tr = []" "r \<noteq> Inl AssertionError"
    by (simp_all add: quiet_def)
  show ?case
  proof (cases r)
    case (Inl e)
    with s q show ?thesis by (simp add: quiet_def ok_def)
  next
    case (Inr u)
    with s q Cons.IH show ?thesis by simp
  qed
qed

lemma quiet_evaluate: "quiet (evaluate ns a w ph bs loc)"
  unfolding evaluate_def
  by (intro quiet_bind quiet_then quiet_eval_loop quiet_emit quiet_read_i quiet_lift quiet_ok
        div_by_int_no_assert) simp



lemma quiet_run_test: "quiet (run_test ns a w bs loc)"
  unfolding run_test_def
  by (intro quiet_bind quiet_then quiet_when quiet_emit quiet_evaluate)
     (simp_all add: split_def quiet_then)


lemma is_tensor_all_reduce [simp]: "is_tensor (all_reduce_mean s ps) = is_tensor s"
  by (cases s) simp_all






lemma run_finish_saves:
  "saved_files (fst (run_finish a v)) = [''trained_graphsage_for_mag240m.pt'']"
  by (simp add: run_finish_def io_defs)



section \<open>The accuracy threshold\<close>




section \<open>The saved model\<close>

lemma quiet_saved: "quiet m \<Longrightarrow> saved_files (fst m) = []"
  by (simp add: quiet_def)

lemma quiet_call_positional: "quiet (call_positional ps xs)"
  by (simp add: call_positional_def)

text \<open>
  The last lines of \<^verbatim>\<open>run\<close>, taken from the point where the test evaluation has
  yielded its accuracy, write the file \<^verbatim>\<open>trained_graphsage_for_mag240m.pt\<close> whatever
  the accuracy is, and nothing is written before them.  No part of the two papers100M
  scripts writes a file.
\<close>

lemma save_follows_test_evaluation:
  "(run_test ns a w bs loc = (tr, Inr acc) \<longrightarrow>
      saved_files (fst (run_tail ns a w bs loc)) = [''trained_graphsage_for_mag240m.pt'']) \<and>
   saved_files (fst (run_test ns a w bs loc)) = [] \<and>
   saved_files (fst (run_train_singlenode p w' env)) = [] \<and>
   saved_files (fst (run_train_multinode p w' env)) = [] \<and>
   saved_files (fst (spawned_singlenode cargs r world_size train valid test w' env)) = [] \<and>
   saved_files (fst (main_singlenode cargs outcome)) = [] \<and>
   saved_files (fst (main_multinode cargs r world_size train valid test w' env)) = []"
proof (intro conjI impI)
  assume t: "run_test ns a w bs loc = (tr, Inr acc)"
  have q: "saved_files tr = []" using quiet_saved [OF quiet_run_test, of ns a w bs loc] t by simp
  from t show "saved_files (fst (run_tail ns a w bs loc)) = [''trained_graphsage_for_mag240m.pt'']"
    using q by (simp add: run_tail_def run_finish_saves)
next
  show "saved_files (fst (run_test ns a w bs loc)) = []"
    by (rule quiet_saved) (rule quiet_run_test)
next
  show "saved_files (fst (run_train_singlenode p w' env)) = []"
    by (rule quiet_saved) (rule quiet_run_train_singlenode)
next
  show "saved_files (fst (run_train_multinode p w' env)) = []"
    by (rule quiet_saved) (rule quiet_run_train_multinode)
next
  show "saved_files (fst (spawned_singlenode cargs r world_size train valid test w' env)) = []"
    unfolding spawned_singlenode_def
    by (rule quiet_saved)
       (intro quiet_seq_Cons quiet_seq_Nil quiet_call_positional quiet_run_train_singlenode)
next
  show "saved_files (fst (main_singlenode cargs outcome)) = []"
    by (cases outcome) (simp_all add: main_singlenode_def io_defs)
next
  show "saved_files (fst (main_multinode cargs r world_size train valid test w' env)) = []"
    unfolding main_multinode_def
    by (rule quiet_saved)
       (intro quiet_seq_Cons quiet_seq_Nil quiet_call_positional quiet_run_train_multinode
          quiet_emit, simp)
qed

text \<open>
  With the names the module binds, \<^verbatim>\<open>run\<close> never comes to those lines: it ends in the
  constructor of the model.
\<close>

lemma run_shipped:
  "run (mag240m_globals m d) a data w =
     ((if 1 < n_devices a
       then (if rank a = 0 then [Print ''Setting up distributed...''] else []) @ [InitProcessGroup]
       else []) @
      (if rank a = 0 then [Print ''Setting up GNN...''] else []),
      Inl NameError)"
  by (simp add: run_def run_setup_def io_defs GraphSAGE_init_NameError)

lemma saved_run_shipped: "saved_files (fst (run (mag240m_globals m d) a data w)) = []"
  by (simp add: run_shipped)

lemma saved_main_mag240m:
  "saved_files (fst (main_mag240m args subgraph cuda device_count outcome data w)) = []"
  by (cases outcome) (simp_all add: main_mag240m_def io_defs Let_def run_shipped)

text \<open>
  C8 on the script as shipped, with the default flags on one GPU and a library whose
  accuracy of 70 per cent would pass the threshold: \<^verbatim>\<open>run\<close> and the main block end in
  \<^verbatim>\<open>NameError\<close> after the set-up messages; and for every argument and every outcome of
  \<^verbatim>\<open>mp.spawn\<close>, neither \<^verbatim>\<open>run\<close> nor the main block of mag240m\_graphsage.py writes a
  file.
\<close>

theorem shipped_mag240m_saves_nothing:
  "run (mag240m_globals True False) default_run_args tiny_graph (unit_world (7 / 10)) =
     ([Print ''Setting up GNN...''], Inl NameError) \<and>
   main_mag240m default_run_args 1 True 1 (Inr ()) tiny_graph (unit_world (7 / 10)) =
     ([Print ''args'', Print ''Loading Data...'', Print ''Data ='', Print ''Using a single GPU'',
       Print ''Setting up GNN...''], Inl NameError) \<and>
   saved_files (fst (run (mag240m_globals as_main dbg) a data w)) = [] \<and>
   saved_files (fst (main_mag240m args subgraph cuda device_count outcome data w)) = []"
proof (intro conjI)
  show "run (mag240m_globals True False) default_run_args tiny_graph (unit_world (7 / 10)) =
     ([Print ''Setting up GNN...''], Inl NameError)"
    by (simp add: run_shipped default_run_args_def)
  show "main_mag240m default_run_args 1 True 1 (Inr ()) tiny_graph (unit_world (7 / 10)) =
     ([Print ''args'', Print ''Loading Data...'', Print ''Data ='', Print ''Using a single GPU'',
       Print ''Setting up GNN...''], Inl NameError)"
    by (simp add: main_mag240m_def io_defs Let_def run_shipped default_run_args_def)
  show "saved_files (fst (run (mag240m_globals as_main dbg) a data w)) = []"
    by (rule saved_run_shipped)
  show "saved_files (fst (main_mag240m args subgraph cuda device_count outcome data w)) = []"
    by (rule saved_main_mag240m)
qed

section \<open>The training iteration\<close>

lemma papers_step_eq:
  "papers_step p i =
     ([ToDevice, ZeroGrad, Forward, CrossEntropy (p_batch_size p), Backward, OptStep] @
      (if p_rank p = 0 \<and> i mod 10 = 0 then [Print ''Epoch, Iteration, Loss''] else []), Inr ())"
  by (simp add: papers_step_def io_defs)

lemma papers_step_ops:
  "filter is_step_op (fst (papers_step p i)) = step_ops (p_batch_size p)"
  by (simp add: papers_step_eq step_ops_def)

lemma papers_step_print:
  "list_ex is_print (fst (papers_step p i)) \<Longrightarrow> p_rank p = 0 \<and> i mod 10 = 0"
  by (simp add: papers_step_eq split: if_splits)

lemma train_loop_singlenode_iters:
  "(j, tr) \<in> set (fst (train_loop_singlenode p i bs loc)) \<Longrightarrow>
   filter is_step_op tr = step_ops (p_batch_size p) \<and>
   (list_ex is_print tr \<longrightarrow> p_rank p = 0 \<and> j mod 10 = 0)"
proof (induction bs arbitrary: i loc)
  case Nil
  then show ?case by simp
next
  case (Cons b bs)
  from Cons.prems have
    "(j, tr) = (i, fst (papers_step p i)) \<or>
     (j, tr) \<in> set (fst (train_loop_singlenode p (i + 1) bs (mark_start i loc)))"
    by (simp add: papers_step_eq first_iter_def)
  then show ?case
  proof
    assume "(j, tr) = (i, fst (papers_step p i))"
    then show ?thesis using papers_step_ops [of p i] papers_step_print [of p i] by auto
  next
    assume "(j, tr) \<in> set (fst (train_loop_singlenode p (i + 1) bs (mark_start i loc)))"
    then show ?thesis by (rule Cons.IH)
  qed
qed

lemma train_loop_multinode_first:
  assumes "\<not> loc_start loc"
  shows "train_loop_multinode p 0 (b # bs) loc = ([(0, fst (papers_step p 0))], Inl UnboundLocalError)"
  using assms
  by (simp add: papers_step_eq average_time_multinode_def mark_start_def warmup_steps_def io_defs)

lemma train_loop_multinode_iters:
  assumes "\<not> loc_start loc" and "(j, tr) \<in> set (fst (train_loop_multinode p 0 bs loc))"
  shows "filter is_step_op tr = step_ops (p_batch_size p) \<and>
         (list_ex is_print tr \<longrightarrow> p_rank p = 0 \<and> j mod 10 = 0)"
proof (cases bs)
  case Nil
  with assms(2) show ?thesis by simp
next
  case (Cons b bs')
  have "fst (train_loop_multinode p 0 (b # bs') loc) = [(0, fst (papers_step p 0))]"
    unfolding train_loop_multinode_first [OF assms(1)] by (rule fst_conv)
  with assms(2) Cons have "(j, tr) = (0, fst (papers_step p 0))"
    by (simp del: train_loop_multinode.simps)
  then show ?thesis using papers_step_ops [of p 0] papers_step_print [of p 0] by auto
qed

lemma GraphSAGE_forward_cases:
  "GraphSAGE_forward ns k = ([Forward], Inr ()) \<or> GraphSAGE_forward ns k = ([], Inl NameError)"
  by (simp add: GraphSAGE_forward_def load_name_def io_defs)

lemma train_iteration_ops:
  "prefix (filter is_step_op (fst (train_iteration ns a w epoch i b loc))) (step_ops (seed_count w b)) \<and>
   (snd (GraphSAGE_forward ns (num_layers_of a)) = Inr () \<longrightarrow>
      filter is_step_op (fst (train_iteration ns a w epoch i b loc)) = step_ops (seed_count w b)) \<and>
   (list_ex is_print (fst (train_iteration ns a w epoch i b loc)) \<longrightarrow>
      rank a = 0 \<and> log_every_n_steps a \<noteq> 0 \<and> i mod log_every_n_steps a = 0)"
  using GraphSAGE_forward_cases [of ns "num_layers_of a"]
  by (auto simp: train_iteration_def training_step_def common_step_def py_mod_def step_ops_def
        io_defs)

lemma train_loop_iters:
  "(j, tr) \<in> set (fst (train_loop ns a w epoch i bs loc)) \<Longrightarrow>
   (\<exists>b \<in> set bs.
      prefix (filter is_step_op tr) (step_ops (seed_count w b)) \<and>
      (snd (GraphSAGE_forward ns (num_layers_of a)) = Inr () \<longrightarrow>
         filter is_step_op tr = step_ops (seed_count w b))) \<and>
   (list_ex is_print tr \<longrightarrow> rank a = 0 \<and> log_every_n_steps a \<noteq> 0 \<and> j mod log_every_n_steps a = 0)"
proof (induction bs arbitrary: i loc)
  case Nil
  then show ?case by simp
next
  case (Cons b bs)
  let ?m = "train_iteration ns a w epoch i b (loc\<lparr>loc_i := Some i\<rparr>)"
  obtain t r where m: "?m = (t, r)" by (cases ?m)
  have "(j, tr) = (i, fst ?m) \<or>
        (\<exists>loc'. (j, tr) \<in> set (fst (train_loop ns a w epoch (i + 1) bs loc')))"
    using Cons.prems m by (cases r) (auto simp: first_iter_def split: if_splits)
  then show ?case
  proof
    assume "(j, tr) = (i, fst ?m)"
    then show ?thesis
      using train_iteration_ops [of ns a w epoch i b "loc\<lparr>loc_i := Some i\<rparr>"] by auto
  next
    assume "\<exists>loc'. (j, tr) \<in> set (fst (train_loop ns a w epoch (i + 1) bs loc'))"
    then obtain loc' where "(j, tr) \<in> set (fst (train_loop ns a w epoch (i + 1) bs loc'))" ..
    from Cons.IH [OF this] show ?thesis by auto
  qed
qed


lemma GraphSAGE_forward_two_layers: "k \<le> 2 \<Longrightarrow> snd (GraphSAGE_forward ns k) = Inr ()"
  by (simp add: GraphSAGE_forward_def io_defs)

text \<open>
  Every iteration the training loops execute performs the operations of a training
  step in the order zero-grad, forward, cross-entropy on the first \<open>batch_size\<close>
  outputs, backward, optimizer step: all five in the two papers100M scripts (in the
  multi-node script from the initial state, where \<^verbatim>\<open>start\<close> is unbound), and in
  mag240m\_graphsage.py an initial part of them, all five with at most two layers.  An
  iteration prints only on rank 0 and only if its index is a multiple of the logging
  interval (10, or \<^verbatim>\<open>log_every_n_steps\<close>).
\<close>

lemma iteration_order_when_forward_returns:
  "(\<forall>(j, tr) \<in> set (fst (train_loop_singlenode p i bs loc)).
      filter is_step_op tr = step_ops (p_batch_size p) \<and>
      (list_ex is_print tr \<longrightarrow> p_rank p = 0 \<and> j mod 10 = 0)) \<and>
   (\<not> loc_start loc \<longrightarrow>
      (\<forall>(j, tr) \<in> set (fst (train_loop_multinode p 0 bs loc)).
         filter is_step_op tr = step_ops (p_batch_size p) \<and>
         (list_ex is_print tr \<longrightarrow> p_rank p = 0 \<and> j mod 10 = 0))) \<and>
   (\<forall>(j, tr) \<in> set (fst (train_loop ns a w epoch i bs' loc')).
      (\<exists>b \<in> set bs'.
         prefix (filter is_step_op tr) (step_ops (seed_count w b)) \<and>
         (num_layers_of a \<le> 2 \<longrightarrow> filter is_step_op tr = step_ops (seed_count w b))) \<and>
      (list_ex is_print tr \<longrightarrow>
         rank a = 0 \<and> log_every_n_steps a \<noteq> 0 \<and> j mod log_every_n_steps a = 0))"
proof (intro conjI impI ballI)
  fix x assume x: "x \<in> set (fst (train_loop_singlenode p i bs loc))"
  obtain j tr where jt: "x = (j, tr)" by (cases x)
  with x show "case x of (j, tr) \<Rightarrow>
      filter is_step_op tr = step_ops (p_batch_size p) \<and>
      (list_ex is_print tr \<longrightarrow> p_rank p = 0 \<and> j mod 10 = 0)"
    using train_loop_singlenode_iters [of j tr p i bs loc] by simp
next
  fix x assume x: "\<not> loc_start loc" "x \<in> set (fst (train_loop_multinode p 0 bs loc))"
  obtain j tr where jt: "x = (j, tr)" by (cases x)
  with x show "case x of (j, tr) \<Rightarrow>
      filter is_step_op tr = step_ops (p_batch_size p) \<and>
      (list_ex is_print tr \<longrightarrow> p_rank p = 0 \<and> j mod 10 = 0)"
    using train_loop_multinode_iters [of loc j tr p bs] by simp
next
  fix x assume x: "x \<in> set (fst (train_loop ns a w epoch i bs' loc'))"
  obtain j tr where jt: "x = (j, tr)" by (cases x)
  with x show "case x of (j, tr) \<Rightarrow>
      (\<exists>b \<in> set bs'.
         prefix (filter is_step_op tr) (step_ops (seed_count w b)) \<and>
         (num_layers_of a \<le> 2 \<longrightarrow> filter is_step_op tr = step_ops (seed_count w b))) \<and>
      (list_ex is_print tr \<longrightarrow>
         rank a = 0 \<and> log_every_n_steps a \<noteq> 0 \<and> j mod log_every_n_steps a = 0)"
    using train_loop_iters [of j tr ns a w epoch i bs' loc']
      GraphSAGE_forward_two_layers [of "num_layers_of a" ns]
    by auto
qed

lemma singlenode_two_iterations:
  "fst (train_loop_singlenode (train_args_of default_cli_args 0 1 [0, 1] [2] [3]) 0 [5, 6 :: nat]
          fresh_locals) =
     [(0, [ToDevice, ZeroGrad, Forward, CrossEntropy 2048, Backward, OptStep,
           Print ''Epoch, Iteration, Loss'']),
      (1, [ToDevice, ZeroGrad, Forward, CrossEntropy 2048, Backward, OptStep])]"
  by (simp add: papers_step_eq first_iter_def train_args_of_def default_cli_args_def)

lemma multinode_one_iteration:
  "train_loop_multinode (train_args_of default_cli_args 0 1 [0, 1] [2] [3]) 0 [5, 6 :: nat]
          fresh_locals =
     ([(0, [ToDevice, ZeroGrad, Forward, CrossEntropy 2048, Backward, OptStep,
            Print ''Epoch, Iteration, Loss''])], Inl UnboundLocalError)"
  by (simp add: papers_step_eq first_iter_def train_args_of_def default_cli_args_def
        average_time_multinode_def mark_start_def warmup_steps_def fresh_locals_def io_defs)

lemma mag240m_one_iteration:
  "fst (train_loop (mag240m_globals False False) default_run_args (unit_world (1 / 2)) 1 0 [5 :: nat]
          fresh_locals) =
     [(0, [ZeroGrad, ToDevice, Forward, CrossEntropy 1, Metric, Backward, OptStep,
           Print ''Epoch, Step, Loss, Train Acc, Step Time''])]"
  by (simp add: train_iteration_def training_step_def common_step_def GraphSAGE_forward_def
        num_layers_of_def py_mod_def first_iter_def default_run_args_def unit_world_def io_defs)

text \<open>
  With more than two layers, \<^verbatim>\<open>GraphSAGE.forward\<close> reads \<^verbatim>\<open>num_layers\<close> (line 114)
  where line 113 reads \<^verbatim>\<open>self.num_layers\<close>; no such global exists, so an iteration
  ends in the forward pass.
\<close>

lemma train_iteration_three_layers:
  assumes "2 < num_layers_of a" and "''num_layers'' \<notin> set ns" and "''range'' \<in> set ns"
  shows "train_iteration ns a w epoch i b loc =
           (ZeroGrad # (if 0 < n_devices a then [ToDevice] else []), Inl NameError)"
  using assms
  by (simp add: train_iteration_def training_step_def common_step_def GraphSAGE_forward_def
        load_name_def io_defs)


section \<open>Properties of the split\<close>

lemma chunks_length_ge:
  "0 < k \<Longrightarrow> r * k < length xs \<Longrightarrow> r < length (chunks k xs)"
proof (induction r arbitrary: xs)
  case 0
  then show ?case by (subst chunks.simps) simp
next
  case (Suc r)
  from Suc.prems have gt: "k < length xs"
    by (metis Suc_eq_plus1 add.commute le_add1 mult_Suc order_le_less_trans linorder_not_less mult.commute)
  from Suc.prems have "r * k < length (drop k xs)" by simp
  with Suc.IH Suc.prems(1) have "r < length (chunks k (drop k xs))" by blast
  with gt Suc.prems(1) show ?case by (subst chunks.simps) simp
qed

lemma chunks_nth:
  "0 < k \<Longrightarrow> Suc r * k \<le> length xs \<Longrightarrow> chunks k xs ! r = slice k r xs"
proof (induction r arbitrary: xs)
  case 0
  then show ?case by (subst chunks.simps) (simp add: slice_def)
next
  case (Suc r)
  from Suc.prems have gt: "k < length xs" by (cases k) auto
  from Suc.prems have "Suc r * k \<le> length (drop k xs)" by simp
  with Suc.IH Suc.prems(1) have "chunks k (drop k xs) ! r = slice k r (drop k xs)" by blast
  with gt Suc.prems(1) show ?case
    by (subst chunks.simps) (simp add: slice_def add.commute)
qed

lemma rank_chunk_eq:
  assumes "1 \<le> w" "w \<le> int (length xs)" "0 \<le> r" "r < w"
  shows "rank_chunk w r xs = Inr (slice (length xs div nat w) (nat r) xs)"
proof -
  let ?k = "length xs div nat w"
  from assms have kpos: "0 < ?k" by (simp add: div_greater_zero_iff nat_le_iff)
  have wk: "nat w * ?k \<le> length xs" by simp
  from assms have "Suc (nat r) \<le> nat w" by linarith
  then have "Suc (nat r) * ?k \<le> nat w * ?k" by (rule mult_le_mono1)
  with wk have le: "Suc (nat r) * ?k \<le> length xs" by linarith
  then have "nat r * ?k < length xs" using kpos by simp
  with kpos have len: "nat r < length (chunks ?k xs)" by (rule chunks_length_ge)
  have d: "int (length xs) div w = int ?k" using assms by (simp add: zdiv_int)
  show ?thesis
    using assms kpos len chunks_nth [OF kpos le] d
    by (simp add: rank_chunk_def py_floordiv_def bind_exn_def tensor_split_def py_index_def)
qed

lemma length_slice: "Suc r * k \<le> length xs \<Longrightarrow> length (slice k r xs) = k"
  by (auto simp: slice_def)

lemma concat_slices: "concat (map (\<lambda>r. slice k r xs) [0..<m]) = take (m * k) xs"
proof (induction m)
  case 0 show ?case by simp
next
  case (Suc m)
  have "take (m * k) xs @ take k (drop (m * k) xs) = take (m * k + k) xs"
    by (simp add: take_add)
  with Suc show ?case by (simp add: slice_def add.commute)
qed

lemma slice_disjoint:
  assumes "distinct xs" "r < r'"
  shows "set (slice k r xs) \<inter> set (slice k r' xs) = {}"
proof -
  from assms(2) have "Suc r * k \<le> r' * k" by (simp add: Suc_leI mult_le_mono1 del: mult_Suc)
  then obtain d where d: "r' * k = (r * k + k) + d" by (metis le_iff_add mult_Suc add.commute)
  have "set (take k (drop (r * k) xs)) \<inter> set (drop k (drop (r * k) xs)) = {}"
    using assms(1) by (metis distinct_drop set_take_disj_set_drop_if_distinct order_refl)
  moreover have "set (slice k r' xs) \<subseteq> set (drop k (drop (r * k) xs))"
    unfolding slice_def d
    by (metis add.commute drop_drop set_drop_subset set_take_subset subset_trans)
  ultimately show ?thesis unfolding slice_def by blast
qed

lemma slice_tail_disjoint:
  assumes "distinct xs" "r < m"
  shows "set (slice k r xs) \<inter> set (drop (m * k) xs) = {}"
proof -
  from assms(2) have le: "r * k + k \<le> m * k"
    by (metis Suc_leI mult_Suc mult_le_mono1 add.commute)
  have "slice k r xs = drop (r * k) (take (r * k + k) xs)"
    by (simp add: slice_def drop_take)
  then have "set (slice k r xs) \<subseteq> set (take (r * k + k) xs)"
    by (simp add: set_drop_subset)
  also have "\<dots> \<subseteq> set (take (m * k) xs)"
    using le by (rule set_take_subset_set_take)
  finally have "set (slice k r xs) \<subseteq> set (take (m * k) xs)" .
  moreover have "set (take (m * k) xs) \<inter> set (drop (m * k) xs) = {}"
    using assms(1) by (simp add: set_take_disj_set_drop_if_distinct)
  ultimately show ?thesis by blast
qed

text \<open>
  C10.  For a world size \<open>w \<ge> 1\<close> and \<open>n \<ge> w\<close> training indices, rank \<open>r\<close> of
  \<open>0, \<dots>, w - 1\<close> receives the contiguous slice of positions \<open>r * k\<close> up to
  \<open>(r + 1) * k\<close> with \<open>k = n div w\<close>; each slice has exactly \<open>k\<close> indices, the slices
  of different ranks are disjoint, together they are the first \<open>w * k\<close> indices, and
  the remaining \<open>n mod w\<close> indices belong to no rank.
\<close>

theorem rank_chunks_disjoint_contiguous:
  assumes "1 \<le> w" and "w \<le> int (length idx)" and "distinct idx"
  shows "(\<forall>r. 0 \<le> r \<and> r < w \<longrightarrow>
            rank_chunk w r idx = Inr (slice (length idx div nat w) (nat r) idx) \<and>
            length (slice (length idx div nat w) (nat r) idx) = length idx div nat w) \<and>
         (\<forall>r r'. r < nat w \<and> r' < nat w \<and> r \<noteq> r' \<longrightarrow>
            set (slice (length idx div nat w) r idx) \<inter>
            set (slice (length idx div nat w) r' idx) = {}) \<and>
         concat (map (\<lambda>r. slice (length idx div nat w) r idx) [0..<nat w]) =
            take (nat w * (length idx div nat w)) idx \<and>
         length (drop (nat w * (length idx div nat w)) idx) = length idx mod nat w \<and>
         (\<forall>r. r < nat w \<longrightarrow>
            set (slice (length idx div nat w) r idx) \<inter>
            set (drop (nat w * (length idx div nat w)) idx) = {})"
proof (intro conjI allI impI)
  fix r :: int
  assume r: "0 \<le> r \<and> r < w"
  with assms show "rank_chunk w r idx = Inr (slice (length idx div nat w) (nat r) idx)"
    by (simp add: rank_chunk_eq)
  have wk: "nat w * (length idx div nat w) \<le> length idx" by simp
  from r have "Suc (nat r) \<le> nat w" by linarith
  then have "Suc (nat r) * (length idx div nat w) \<le> nat w * (length idx div nat w)"
    by (rule mult_le_mono1)
  with wk have "Suc (nat r) * (length idx div nat w) \<le> length idx" by linarith
  then show "length (slice (length idx div nat w) (nat r) idx) = length idx div nat w"
    by (rule length_slice)
next
  fix r r' :: nat
  assume "r < nat w \<and> r' < nat w \<and> r \<noteq> r'"
  then consider "r < r'" | "r' < r" by linarith
  then show "set (slice (length idx div nat w) r idx) \<inter>
             set (slice (length idx div nat w) r' idx) = {}"
    using slice_disjoint [OF assms(3)] by (cases) (blast+)
next
  show "concat (map (\<lambda>r. slice (length idx div nat w) r idx) [0..<nat w]) =
        take (nat w * (length idx div nat w)) idx"
    by (rule concat_slices)
next
  have "length idx = nat w * (length idx div nat w) + length idx mod nat w" by simp
  then show "length (drop (nat w * (length idx div nat w)) idx) = length idx mod nat w"
    by (metis add_diff_cancel_left' length_drop)
next
  fix r :: nat
  assume "r < nat w"
  with assms(3) show "set (slice (length idx div nat w) r idx) \<inter>
                      set (drop (nat w * (length idx div nat w)) idx) = {}"
    by (rule slice_tail_disjoint)
qed

theorem rank_chunks_disjoint_contiguous_witness:
  "rank_chunk 2 0 [10, 11, 12, 13, 14 :: nat] = Inr [10, 11] \<and>
   rank_chunk 2 1 [10, 11, 12, 13, 14 :: nat] = Inr [12, 13] \<and>
   set [10, 11 :: nat] \<inter> set [12, 13] = {} \<and>
   drop 4 [10, 11, 12, 13, 14 :: nat] = [14] \<and>
   length [10, 11, 12, 13, 14 :: nat] mod 2 = 1"
proof -
  have h1: "(1::int) \<le> 2" by simp
  have h2: "(2::int) \<le> int (length [10, 11, 12, 13, 14 :: nat])" by simp
  have h3: "distinct [10, 11, 12, 13, 14 :: nat]" by simp
  have k: "length [10, 11, 12, 13, 14 :: nat] div nat 2 = 2" by simp
  note t = rank_chunks_disjoint_contiguous [OF h1 h2 h3, unfolded k, THEN conjunct1]
  have s0: "slice 2 (nat 0) [10, 11, 12, 13, 14 :: nat] = [10, 11]"
    by (simp add: slice_def)
  have s1: "slice 2 (nat 1) [10, 11, 12, 13, 14 :: nat] = [12, 13]"
    by (simp add: slice_def)
  have "(0::int) \<le> 0 \<and> (0::int) < 2" by simp
  with t have a: "rank_chunk 2 0 [10, 11, 12, 13, 14 :: nat] =
      Inr (slice 2 (nat 0) [10, 11, 12, 13, 14])"
    by blast
  have "(0::int) \<le> 1 \<and> (1::int) < 2" by simp
  with t have b: "rank_chunk 2 1 [10, 11, 12, 13, 14 :: nat] =
      Inr (slice 2 (nat 1) [10, 11, 12, 13, 14])"
    by blast
  from a b show ?thesis unfolding s0 s1 by simp
qed


end
